theory Spec2Isabelle
  imports Complex_Main "HOL-Library.Multiset"
begin

section \<open>Overview\<close>

text \<open>
  A shallow embedding of the pricing pipeline of the LLM price calculator: the pricing
  normalizer and the cache gateway (\<^verbatim>\<open>services/apiService.ts\<close>), the cost calculator
  (\<^verbatim>\<open>calculateModelCost\<close>) and the derived views of \<^verbatim>\<open>App.tsx\<close> and
  \<^verbatim>\<open>components/CostChart.tsx\<close>.  Every definition follows the TypeScript source and keeps
  its names; a name that is reserved in Isabelle or already taken in HOL carries a prefix.
\<close>

section \<open>JavaScript numbers\<close>

text \<open>
  A JavaScript \<^verbatim>\<open>number\<close> is either a finite value, one of the two infinities, or NaN.
  A finite value is represented by the real number it denotes.  The result of an operation is
  its exact real result brought into the range of doubles by \<open>to_double\<close>: a result whose
  magnitude reaches \<open>overflow_bound\<close>, the least magnitude that rounds to an infinity, is
  that infinity, and a result whose magnitude is at most \<open>underflow_bound\<close>, half the least
  positive double, is zero.  The rounding of a result within the range and the sign of zero
  are not represented.  The special values follow IEEE 754, as the source observes them:
  \<^verbatim>\<open>isNaN\<close> is tested by \<^verbatim>\<open>parsePrice\<close>, every comparison with NaN is false, and
  \<open>0 * Infinity\<close> is NaN.

  \<open>js_div_const x k\<close> is \<^verbatim>\<open>x / k\<close> for a positive finite constant \<open>k\<close> (the source divides by
  \<^verbatim>\<open>1_000_000\<close> only), and \<open>Math_max0 x\<close> is \<^verbatim>\<open>Math.max(0, x)\<close>.
\<close>

datatype jsnumber = Fin real | PInf | NInf | NaN

fun isNaN :: "jsnumber \<Rightarrow> bool" where
  "isNaN NaN = True"
| "isNaN _ = False"

definition overflow_bound :: real where
  "overflow_bound = 2 ^ 1024 - 2 ^ 970"

definition underflow_bound :: real where
  "underflow_bound = 1 / 2 ^ 1075"

definition to_double :: "real \<Rightarrow> jsnumber" where
  "to_double x =
     (if overflow_bound \<le> x then PInf
      else if x \<le> - overflow_bound then NInf
      else if \<bar>x\<bar> \<le> underflow_bound then Fin 0
      else Fin x)"

fun js_neg :: "jsnumber \<Rightarrow> jsnumber" where
  "js_neg (Fin a) = Fin (- a)"
| "js_neg PInf = NInf"
| "js_neg NInf = PInf"
| "js_neg NaN = NaN"

fun js_times :: "jsnumber \<Rightarrow> jsnumber \<Rightarrow> jsnumber" where
  "js_times NaN _ = NaN"
| "js_times _ NaN = NaN"
| "js_times (Fin a) (Fin b) = to_double (a * b)"
| "js_times (Fin a) PInf = (if a = 0 then NaN else if 0 < a then PInf else NInf)"
| "js_times (Fin a) NInf = (if a = 0 then NaN else if 0 < a then NInf else PInf)"
| "js_times PInf (Fin b) = (if b = 0 then NaN else if 0 < b then PInf else NInf)"
| "js_times NInf (Fin b) = (if b = 0 then NaN else if 0 < b then NInf else PInf)"
| "js_times PInf PInf = PInf"
| "js_times PInf NInf = NInf"
| "js_times NInf PInf = NInf"
| "js_times NInf NInf = PInf"

fun js_plus :: "jsnumber \<Rightarrow> jsnumber \<Rightarrow> jsnumber" where
  "js_plus NaN _ = NaN"
| "js_plus _ NaN = NaN"
| "js_plus (Fin a) (Fin b) = to_double (a + b)"
| "js_plus (Fin a) PInf = PInf"
| "js_plus (Fin a) NInf = NInf"
| "js_plus PInf (Fin b) = PInf"
| "js_plus NInf (Fin b) = NInf"
| "js_plus PInf PInf = PInf"
| "js_plus NInf NInf = NInf"
| "js_plus PInf NInf = NaN"
| "js_plus NInf PInf = NaN"

fun js_less :: "jsnumber \<Rightarrow> jsnumber \<Rightarrow> bool" where
  "js_less NaN _ = False"
| "js_less _ NaN = False"
| "js_less (Fin a) (Fin b) = (a < b)"
| "js_less (Fin a) PInf = True"
| "js_less (Fin a) NInf = False"
| "js_less PInf _ = False"
| "js_less NInf NInf = False"
| "js_less NInf _ = True"

fun js_div_const :: "jsnumber \<Rightarrow> real \<Rightarrow> jsnumber" where
  "js_div_const (Fin a) k = to_double (a / k)"
| "js_div_const x k = x"

fun Math_max0 :: "jsnumber \<Rightarrow> jsnumber" where
  "Math_max0 (Fin a) = Fin (max 0 a)"
| "Math_max0 PInf = PInf"
| "Math_max0 NInf = Fin 0"
| "Math_max0 NaN = NaN"

definition js_minus :: "jsnumber \<Rightarrow> jsnumber \<Rightarrow> jsnumber" where
  "js_minus a b = js_plus a (js_neg b)"

section \<open>Strings\<close>

text \<open>
  Strings are lists of characters; a character stands for a UTF-16 code unit below 256.
  \<^verbatim>\<open>toLowerCase\<close> and \<^verbatim>\<open>toUpperCase\<close> act on the ASCII letters and leave every other
  character alone.  \<open>startsWith s p\<close> is
  \<^verbatim>\<open>s.startsWith(p)\<close>, \<open>split sep s\<close> is \<^verbatim>\<open>s.split(sep)\<close> for a one-character separator,
  \<open>js_includes s q\<close> is \<^verbatim>\<open>s.includes(q)\<close>, and \<open>str_less\<close> is the operator \<^verbatim>\<open><\<close> on two
  strings, which compares them code unit by code unit.
\<close>

definition toLowerChar :: "char \<Rightarrow> char" where
  "toLowerChar c =
     (case map_of (zip ''ABCDEFGHIJKLMNOPQRSTUVWXYZ'' ''abcdefghijklmnopqrstuvwxyz'') c of
        Some l \<Rightarrow> l | None \<Rightarrow> c)"

definition toUpperChar :: "char \<Rightarrow> char" where
  "toUpperChar c =
     (case map_of (zip ''abcdefghijklmnopqrstuvwxyz'' ''ABCDEFGHIJKLMNOPQRSTUVWXYZ'') c of
        Some u \<Rightarrow> u | None \<Rightarrow> c)"

definition toLowerCase :: "string \<Rightarrow> string" where
  "toLowerCase s = map toLowerChar s"

definition startsWith :: "string \<Rightarrow> string \<Rightarrow> bool" where
  "startsWith s p = (take (length p) s = p)"

fun split :: "char \<Rightarrow> string \<Rightarrow> string list" where
  "split sep [] = [[]]"
| "split sep (c # cs) =
     (if c = sep then [] # split sep cs
      else (case split sep cs of p # ps \<Rightarrow> (c # p) # ps | [] \<Rightarrow> [[c]]))"

definition capitalize :: "string \<Rightarrow> string" where
  "capitalize key = (case key of [] \<Rightarrow> [] | c # cs \<Rightarrow> toUpperChar c # cs)"

fun str_less :: "string \<Rightarrow> string \<Rightarrow> bool" where
  "str_less [] [] = False"
| "str_less [] (y # ys) = True"
| "str_less (x # xs) [] = False"
| "str_less (x # xs) (y # ys) =
     ((of_char x :: nat) < of_char y \<or> (x = y \<and> str_less xs ys))"

primrec js_includes :: "string \<Rightarrow> string \<Rightarrow> bool" where
  "js_includes [] q = (q = [])"
| "js_includes (c # cs) q = (startsWith (c # cs) q \<or> js_includes cs q)"

section \<open>The built-in \<^verbatim>\<open>parseFloat\<close>\<close>

text \<open>
  \<^verbatim>\<open>parseFloat\<close> skips leading white space (among the code units below 256: tab, line
  feed, vertical tab, form feed, carriage return, space and no-break space) and returns the
  value, brought into the range of doubles, of the longest prefix of the rest that is a decimal
  literal of the form
  \<^verbatim>\<open>[+-] (Infinity | digits [. [digits]] [exponent] | . digits [exponent])\<close>, where an
  exponent is \<^verbatim>\<open>e\<close> or \<^verbatim>\<open>E\<close>, an optional sign and at least one digit.  When no prefix is
  such a literal the result is NaN.  The scanner below reads the integer digits, the fraction
  and the exponent from left to right; an exponent indicator that is not followed by digits is
  not part of the literal.
\<close>

definition is_space :: "char \<Rightarrow> bool" where
  "is_space c = ((of_char c :: nat) \<in> {9, 10, 11, 12, 13, 32, 160})"

definition is_digit :: "char \<Rightarrow> bool" where
  "is_digit c = (48 \<le> (of_char c :: nat) \<and> (of_char c :: nat) \<le> 57)"

definition digits_val :: "string \<Rightarrow> nat" where
  "digits_val ds = foldl (\<lambda>a c. 10 * a + (of_char c - 48)) 0 ds"

definition pow10 :: "int \<Rightarrow> real" where
  "pow10 e = (if 0 \<le> e then 10 ^ nat e else 1 / 10 ^ nat (- e))"

definition signed_digits :: "int \<Rightarrow> string \<Rightarrow> int" where
  "signed_digits sg u =
     (let ds = takeWhile is_digit u in if ds = [] then 0 else sg * int (digits_val ds))"

definition scan_exponent :: "string \<Rightarrow> int" where
  "scan_exponent s =
     (case s of
        [] \<Rightarrow> 0
      | c # t \<Rightarrow>
          if c = CHR ''e'' \<or> c = CHR ''E'' then
            (case t of
               [] \<Rightarrow> 0
             | d # u \<Rightarrow>
                 if d = CHR ''+'' then signed_digits 1 u
                 else if d = CHR ''-'' then signed_digits (- 1) u
                 else signed_digits 1 t)
          else 0)"

definition scan_unsigned :: "string \<Rightarrow> jsnumber" where
  "scan_unsigned s =
     (if startsWith s ''Infinity'' then PInf
      else
        (let ip = takeWhile is_digit s; r = dropWhile is_digit s in
         case r of
           [] \<Rightarrow> if ip = [] then NaN else to_double (real (digits_val ip))
         | c # r2 \<Rightarrow>
             if c = CHR ''.'' then
               (let fp = takeWhile is_digit r2; r3 = dropWhile is_digit r2 in
                if ip = [] \<and> fp = [] then NaN
                else to_double ((real (digits_val ip) + real (digits_val fp) / 10 ^ length fp)
                                * pow10 (scan_exponent r3)))
             else if ip = [] then NaN
             else to_double (real (digits_val ip) * pow10 (scan_exponent r))))"

definition parseFloat :: "string \<Rightarrow> jsnumber" where
  "parseFloat s =
     (case dropWhile is_space s of
        [] \<Rightarrow> NaN
      | c # u \<Rightarrow>
          if c = CHR ''+'' then scan_unsigned u
          else if c = CHR ''-'' then js_neg (scan_unsigned u)
          else scan_unsigned (c # u))"

section \<open>Data model\<close>

text \<open>
  \<open>OpenRouterModel\<close> keeps the fields of a raw catalog entry that the source reads; its
  \<^verbatim>\<open>id\<close> and \<^verbatim>\<open>name\<close> are strings, as the interface declares them.  A price is whatever
  \<^verbatim>\<open>parsePrice\<close> accepts: \<^verbatim>\<open>string | number | undefined | null\<close>; a price of another type (a
  boolean, an array, an object) behaves as the string that \<^verbatim>\<open>String\<close> makes of it.  The
  \<^verbatim>\<open>pricing\<close> object and \<^verbatim>\<open>context_length\<close> may be absent (\<open>None\<close>), as the optional
  chaining \<^verbatim>\<open>pricing?.prompt\<close> and the default \<^verbatim>\<open>context_length || 0\<close> of the source allow.

  \<open>UnifiedModelData\<close> is parameterised by the type of its three numeric fields: a record
  built by the normalizer holds numbers, a record read back from the cache holds a number or
  \<^verbatim>\<open>null\<close> in each of them.
\<close>

datatype price_value = PUndefined | PNull | PString string | PNumber jsnumber

record Pricing =
  prompt :: price_value
  completion :: price_value

record OpenRouterModel =
  raw_id :: string
  raw_name :: string
  context_length :: "jsnumber option"
  pricing :: "Pricing option"

record 'n UnifiedModelData =
  model_id :: string
  model_name :: string
  provider :: string
  inputPricePerMillion :: 'n
  outputPricePerMillion :: 'n
  contextWindow :: 'n

record CostCalculation =
  model :: "jsnumber UnifiedModelData"
  inputCost :: jsnumber
  outputCost :: jsnumber
  totalCost :: jsnumber

section \<open>Pricing normalizer\<close>

text \<open>
  \<open>parseFloat_String v\<close> is \<^verbatim>\<open>parseFloat(String(v))\<close>.  For a number \<open>n\<close> the string
  \<^verbatim>\<open>String(n)\<close> is the shortest decimal text that reads back as \<open>n\<close> (or one of
  \<^verbatim>\<open>NaN\<close>, \<^verbatim>\<open>Infinity\<close>, \<^verbatim>\<open>-Infinity\<close>), so the composition returns \<open>n\<close>; the texts
  \<^verbatim>\<open>undefined\<close> and \<^verbatim>\<open>null\<close> have no numeric prefix.
\<close>

definition guessProvider :: "string \<Rightarrow> string \<Rightarrow> string" where
  "guessProvider ident name =
    (let lowerId = toLowerCase ident in
     if startsWith lowerId ''openai/'' then ''OpenAI''
     else if startsWith lowerId ''google/'' then ''Google''
     else if startsWith lowerId ''anthropic/'' then ''Anthropic''
     else if startsWith lowerId ''mistral'' then ''Mistral''
     else if startsWith lowerId ''meta-llama/'' then ''Meta''
     else if startsWith lowerId ''meta/'' then ''Meta''
     else if startsWith lowerId ''cohere/'' then ''Cohere''
     else if startsWith lowerId ''deepseek/'' then ''DeepSeek''
     else if startsWith lowerId ''qwen/'' then ''Alibaba''
     else if startsWith lowerId ''microsoft/'' then ''Microsoft''
     else if startsWith lowerId ''perplexity/'' then ''Perplexity''
     else (let parts = split CHR ''/'' ident in
           if length parts > 1 then capitalize (toLowerCase (hd parts))
           else ''Other''))"

fun parseFloat_String :: "price_value \<Rightarrow> jsnumber" where
  "parseFloat_String (PString s) = parseFloat s"
| "parseFloat_String (PNumber n) = n"
| "parseFloat_String PUndefined = NaN"
| "parseFloat_String PNull = NaN"

definition parsePrice :: "price_value \<Rightarrow> jsnumber" where
  "parsePrice v =
     (if v = PUndefined \<or> v = PNull then Fin 0
      else (let parsed = parseFloat_String v in
            if isNaN parsed then Fin 0 else Math_max0 parsed))"

definition pricing_prompt :: "OpenRouterModel \<Rightarrow> price_value" where
  "pricing_prompt m = (case pricing m of None \<Rightarrow> PUndefined | Some p \<Rightarrow> prompt p)"

definition pricing_completion :: "OpenRouterModel \<Rightarrow> price_value" where
  "pricing_completion m = (case pricing m of None \<Rightarrow> PUndefined | Some p \<Rightarrow> completion p)"

definition or_zero :: "jsnumber option \<Rightarrow> jsnumber" where
  "or_zero v = (case v of None \<Rightarrow> Fin 0 | Some n \<Rightarrow> if n = Fin 0 \<or> isNaN n then Fin 0 else n)"

definition normalizeModel :: "OpenRouterModel \<Rightarrow> jsnumber UnifiedModelData" where
  "normalizeModel m =
     (let promptPrice = parsePrice (pricing_prompt m);
          completionPrice = parsePrice (pricing_completion m)
      in \<lparr> model_id = raw_id m,
           model_name = raw_name m,
           provider = guessProvider (raw_id m) (raw_name m),
           inputPricePerMillion = js_times promptPrice (Fin 1000000),
           outputPricePerMillion = js_times completionPrice (Fin 1000000),
           contextWindow = or_zero (context_length m) \<rparr>)"

section \<open>Cost calculator\<close>

definition calculateModelCost :: "jsnumber UnifiedModelData \<Rightarrow> jsnumber \<Rightarrow> jsnumber \<Rightarrow> CostCalculation" where
  "calculateModelCost m inputTokens outputTokens =
     (let inCost = js_times (js_div_const inputTokens 1000000) (inputPricePerMillion m);
          outCost = js_times (js_div_const outputTokens 1000000) (outputPricePerMillion m)
      in \<lparr> model = m, inputCost = inCost, outputCost = outCost,
           totalCost = js_plus inCost outCost \<rparr>)"

definition allCosts :: "jsnumber UnifiedModelData list \<Rightarrow> jsnumber \<Rightarrow> jsnumber \<Rightarrow> CostCalculation list" where
  "allCosts models inputTokens outputTokens =
     map (\<lambda>m. calculateModelCost m inputTokens outputTokens) models"

section \<open>View engine\<close>

text \<open>
  \<^verbatim>\<open>Array.prototype.sort\<close> is stable: an element goes before another one when the
  comparator is negative, after it when the comparator is positive, and two elements that
  compare as \<open>0\<close> keep their order.  \<open>Array_sort\<close> is the insertion sort with this behaviour.
  \<open>compareFn\<close> is the comparator of \<^verbatim>\<open>tableData\<close>, and \<open>val_less\<close> is its test
  \<^verbatim>\<open>valA < valB\<close> on the values that the \<^verbatim>\<open>switch\<close> on the sort field selects.

  \<open>chartData\<close> is the list that \<^verbatim>\<open>App\<close> hands to the chart, \<open>CostChart\<close> the list of points
  that the chart component draws from it, and \<open>chartView\<close> their composition, with the flag
  \<^verbatim>\<open>isSelectionMode\<close> that \<^verbatim>\<open>App\<close> passes along.
\<close>

datatype SortField =
  Sort_name | Sort_provider | Sort_inputPrice | Sort_outputPrice | Sort_totalCost | Sort_contextWindow

datatype SortOrder = asc | desc

fun insert_by :: "('a \<Rightarrow> 'a \<Rightarrow> int) \<Rightarrow> 'a \<Rightarrow> 'a list \<Rightarrow> 'a list" where
  "insert_by cmp x [] = [x]"
| "insert_by cmp x (y # ys) =
     (if cmp x y \<le> 0 then x # y # ys else y # insert_by cmp x ys)"

definition Array_sort :: "('a \<Rightarrow> 'a \<Rightarrow> int) \<Rightarrow> 'a list \<Rightarrow> 'a list" where
  "Array_sort cmp xs = foldr (insert_by cmp) xs []"

definition val_less :: "SortField \<Rightarrow> CostCalculation \<Rightarrow> CostCalculation \<Rightarrow> bool" where
  "val_less sortField a b =
     (case sortField of
        Sort_name \<Rightarrow> str_less (model_name (model a)) (model_name (model b))
      | Sort_provider \<Rightarrow> str_less (provider (model a)) (provider (model b))
      | Sort_contextWindow \<Rightarrow> js_less (contextWindow (model a)) (contextWindow (model b))
      | Sort_inputPrice \<Rightarrow> js_less (inputPricePerMillion (model a)) (inputPricePerMillion (model b))
      | Sort_outputPrice \<Rightarrow> js_less (outputPricePerMillion (model a)) (outputPricePerMillion (model b))
      | Sort_totalCost \<Rightarrow> js_less (totalCost a) (totalCost b))"

definition compareFn ::
  "string set \<Rightarrow> SortField \<Rightarrow> SortOrder \<Rightarrow> CostCalculation \<Rightarrow> CostCalculation \<Rightarrow> int" where
  "compareFn selectedModelIds sortField sortOrder a b =
     (let isSelectedA = model_id (model a) \<in> selectedModelIds;
          isSelectedB = model_id (model b) \<in> selectedModelIds
      in if isSelectedA \<and> \<not> isSelectedB then - 1
         else if \<not> isSelectedA \<and> isSelectedB then 1
         else if val_less sortField a b then (if sortOrder = asc then - 1 else 1)
         else if val_less sortField b a then (if sortOrder = asc then 1 else - 1)
         else 0)"

definition tableData ::
  "CostCalculation list \<Rightarrow> string \<Rightarrow> string \<Rightarrow> SortField \<Rightarrow> SortOrder \<Rightarrow> string set
     \<Rightarrow> CostCalculation list" where
  "tableData costs selectedProvider search sortField sortOrder selectedModelIds =
     (let data1 = (if selectedProvider \<noteq> ''All''
                   then filter (\<lambda>d. provider (model d) = selectedProvider) costs
                   else costs);
          data2 = (if search \<noteq> []
                   then (let q = toLowerCase search in
                         filter (\<lambda>d. js_includes (toLowerCase (model_name (model d))) q \<or>
                                      js_includes (toLowerCase (model_id (model d))) q) data1)
                   else data1)
      in Array_sort (compareFn selectedModelIds sortField sortOrder) data2)"

definition chartData ::
  "CostCalculation list \<Rightarrow> string \<Rightarrow> string \<Rightarrow> SortField \<Rightarrow> SortOrder \<Rightarrow> string set
     \<Rightarrow> CostCalculation list" where
  "chartData costs selectedProvider search sortField sortOrder selectedModelIds =
     (if selectedModelIds \<noteq> {}
      then filter (\<lambda>d. model_id (model d) \<in> selectedModelIds) costs
      else tableData costs selectedProvider search sortField sortOrder selectedModelIds)"

definition isSelectionMode :: "string set \<Rightarrow> bool" where
  "isSelectionMode selectedModelIds = (selectedModelIds \<noteq> {})"

record ChartPoint =
  point_name :: string
  fullName :: string
  point_input :: jsnumber
  point_output :: jsnumber
  point_total :: jsnumber
  point_provider :: string

definition shortName :: "string \<Rightarrow> string" where
  "shortName nm = (let l = last (split CHR ''/'' nm) in if l = [] then nm else l)"

definition chartPoint :: "jsnumber \<Rightarrow> CostCalculation \<Rightarrow> ChartPoint" where
  "chartPoint rate item =
     \<lparr> point_name = shortName (model_name (model item)),
       fullName = model_name (model item),
       point_input = js_times (inputCost item) rate,
       point_output = js_times (outputCost item) rate,
       point_total = js_times (totalCost item) rate,
       point_provider = provider (model item) \<rparr>"

definition CostChart :: "CostCalculation list \<Rightarrow> jsnumber \<Rightarrow> bool \<Rightarrow> ChartPoint list" where
  "CostChart data rate selectionMode =
     (if selectionMode then map (chartPoint rate) data
      else map (chartPoint rate)
             (take 15 (filter (\<lambda>item. js_less (Fin 0) (totalCost item)) data)))"

definition chartView ::
  "CostCalculation list \<Rightarrow> string \<Rightarrow> string \<Rightarrow> SortField \<Rightarrow> SortOrder \<Rightarrow> string set
     \<Rightarrow> jsnumber \<Rightarrow> ChartPoint list" where
  "chartView costs selectedProvider search sortField sortOrder selectedModelIds rate =
     CostChart (chartData costs selectedProvider search sortField sortOrder selectedModelIds)
       rate (isSelectionMode selectedModelIds)"

section \<open>Pricing cache gateway\<close>

text \<open>
  The text stored under the cache key is represented by what \<^verbatim>\<open>JSON.parse\<close> makes of it:
  \<open>EmptyText\<close> is the empty string (falsy, so the source skips it), \<open>Garbled\<close> a text for which
  \<^verbatim>\<open>JSON.parse\<close> throws, and \<open>Text v\<close> a text that parses to \<open>v\<close>.  A parsed value is
  \<^verbatim>\<open>null\<close>, whose property reads throw a \<^verbatim>\<open>TypeError\<close>, or a value with an optional numeric
  \<^verbatim>\<open>timestamp\<close> and an optional \<^verbatim>\<open>models\<close> array; a missing member reads as
  \<^verbatim>\<open>undefined\<close> (\<open>None\<close>).

  \<^verbatim>\<open>JSON.stringify\<close> writes \<^verbatim>\<open>null\<close> for a number that is not finite, so
  \<open>JSON_roundtrip\<close> is what \<^verbatim>\<open>JSON.parse(JSON.stringify(models))\<close> returns, and \<open>in_memory\<close> is
  the array itself, seen at the type of cached records.

  The environment of one call gives, in the order in which the call consults it: whether
  \<^verbatim>\<open>localStorage.getItem\<close> returns (\<open>storage_readable\<close>; it throws a \<^verbatim>\<open>SecurityError\<close> when
  the storage is not accessible), the clock at the freshness test (\<open>now_check\<close>), the outcome
  of the request, the clock when the entry is written (\<open>now_write\<close>) and whether
  \<^verbatim>\<open>localStorage.setItem\<close> returns (\<open>storage_writable\<close>; it throws a
  \<^verbatim>\<open>QuotaExceededError\<close> when the text does not fit).  \<^verbatim>\<open>localStorage.removeItem\<close> does not
  throw once the storage has been read.  The \<open>world\<close> holds the stored text and counts the
  requests sent.

  The array of a response holds one value per catalog entry: \<open>Some m\<close> is an entry whose
  \<^verbatim>\<open>id\<close> is a string, and \<open>None\<close> stands for any other value (\<^verbatim>\<open>null\<close>, a value that is not an
  object, an object without a string \<^verbatim>\<open>id\<close>), for which the normalizer throws a
  \<^verbatim>\<open>TypeError\<close> when it reads \<^verbatim>\<open>model.pricing\<close> or calls \<^verbatim>\<open>id.toLowerCase()\<close>.
\<close>

type_synonym CachedModel = "jsnumber option UnifiedModelData"

datatype parsed_json = JNull | JObject "jsnumber option" "CachedModel list option"

datatype stored_text = EmptyText | Garbled | Text parsed_json

datatype response_body = NotJson | JsonNull | Json "OpenRouterModel option list option"

datatype fetch_outcome = Rejected | Response bool string response_body

datatype error = SecurityError | NetworkFailure | HttpFailure string | JsonSyntaxError | TypeError
  | InvalidStructure | QuotaExceededError

record world =
  storage :: "stored_text option"
  requests :: nat

record env =
  storage_readable :: bool
  now_check :: real
  outcome :: fetch_outcome
  now_write :: real
  storage_writable :: bool

definition CACHE_DURATION :: real where
  "CACHE_DURATION = 1000 * 60 * 60"

definition json_number :: "jsnumber \<Rightarrow> jsnumber option" where
  "json_number n = (case n of Fin r \<Rightarrow> Some (Fin r) | _ \<Rightarrow> None)"

definition map_numbers :: "('a \<Rightarrow> 'b) \<Rightarrow> 'a UnifiedModelData \<Rightarrow> 'b UnifiedModelData" where
  "map_numbers f m =
     \<lparr> model_id = model_id m, model_name = model_name m, provider = provider m,
       inputPricePerMillion = f (inputPricePerMillion m),
       outputPricePerMillion = f (outputPricePerMillion m),
       contextWindow = f (contextWindow m) \<rparr>"

definition JSON_roundtrip :: "jsnumber UnifiedModelData list \<Rightarrow> CachedModel list" where
  "JSON_roundtrip ms = map (map_numbers json_number) ms"

definition in_memory :: "jsnumber UnifiedModelData list \<Rightarrow> CachedModel list" where
  "in_memory ms = map (map_numbers Some) ms"

definition ToNumber :: "jsnumber option \<Rightarrow> jsnumber" where
  "ToNumber v = (case v of None \<Rightarrow> NaN | Some n \<Rightarrow> n)"

definition truthy :: "stored_text option \<Rightarrow> bool" where
  "truthy cached = (case cached of None \<Rightarrow> False | Some t \<Rightarrow> t \<noteq> EmptyText)"

definition attempt :: "fetch_outcome \<Rightarrow> error + OpenRouterModel option list" where
  "attempt r =
     (case r of
        Rejected \<Rightarrow> Inl NetworkFailure
      | Response ok statusText body \<Rightarrow>
          if \<not> ok then Inl (HttpFailure statusText)
          else (case body of
                  NotJson \<Rightarrow> Inl JsonSyntaxError
                | JsonNull \<Rightarrow> Inl TypeError
                | Json None \<Rightarrow> Inl InvalidStructure
                | Json (Some rawModels) \<Rightarrow> Inr rawModels))"

definition normalizeAll :: "OpenRouterModel option list \<Rightarrow> error + jsnumber UnifiedModelData list" where
  "normalizeAll rawModels =
     (case those rawModels of
        None \<Rightarrow> Inl TypeError
      | Some ms \<Rightarrow> Inr (map normalizeModel ms))"

definition try_block :: "env \<Rightarrow> error + jsnumber UnifiedModelData list" where
  "try_block e =
     (case attempt (outcome e) of
        Inl err \<Rightarrow> Inl err
      | Inr rawModels \<Rightarrow>
          (case normalizeAll rawModels of
             Inl err \<Rightarrow> Inl err
           | Inr normalizedModels \<Rightarrow>
               if storage_writable e then Inr normalizedModels else Inl QuotaExceededError))"

text \<open>
  \<open>attempt\<close> is the first part of the second \<^verbatim>\<open>try\<close> block: the request, the test of
  \<^verbatim>\<open>response.ok\<close>, the parsing of the body, the read of its \<^verbatim>\<open>data\<close> member and the test
  \<^verbatim>\<open>Array.isArray\<close>.  \<open>normalizeAll\<close> is \<^verbatim>\<open>rawModels.map\<close> with the normalizer, and
  \<open>try_block\<close> is the outcome of the whole block: the array it returns, or the first
  exception thrown in it, by the request, the validation, the normalizer or the write of the
  cache entry.

  In \<open>fetchModels\<close>, the read of the storage comes first and is outside every \<^verbatim>\<open>try\<close>
  block.  \<open>fresh\<close> is the outcome of the first \<^verbatim>\<open>try\<close> block (the models of a fresh entry,
  if there is one), \<open>w1\<close> the world after its handler, which removes an entry whose text
  does not parse or parses to \<^verbatim>\<open>null\<close>, and \<open>w2\<close> the world once the request is sent.  The
  last branch is the handler of the second block: it reads the variable \<^verbatim>\<open>cached\<close>, which
  still holds the text read at the start, and throws the error it caught unless that text
  yields a \<^verbatim>\<open>models\<close> member.
\<close>

definition fetchModels :: "env \<Rightarrow> world \<Rightarrow> (error + CachedModel list option) \<times> world" where
  "fetchModels e w =
     (if \<not> storage_readable e then (Inl SecurityError, w)
      else
        (let cached = storage w;
             fresh = (if truthy cached then
                        (case cached of
                           Some (Text (JObject ts ms)) \<Rightarrow>
                             if js_less (js_minus (Fin (now_check e)) (ToNumber ts)) (Fin CACHE_DURATION)
                             then Some ms else None
                         | _ \<Rightarrow> None)
                      else None);
             w1 = (if truthy cached \<and> (cached = Some Garbled \<or> cached = Some (Text JNull))
                   then w\<lparr>storage := None\<rparr> else w)
         in case fresh of
              Some ms \<Rightarrow> (Inr ms, w)
            | None \<Rightarrow>
                (let w2 = w1\<lparr>requests := requests w1 + 1\<rparr> in
                 case try_block e of
                   Inr normalizedModels \<Rightarrow>
                     (Inr (Some (in_memory normalizedModels)),
                      w2\<lparr>storage := Some (Text (JObject (Some (Fin (now_write e)))
                                                    (Some (JSON_roundtrip normalizedModels))))\<rparr>)
                 | Inl err \<Rightarrow>
                     (if truthy cached then
                        (case cached of
                           Some (Text (JObject ts ms)) \<Rightarrow> (Inr ms, w2)
                         | _ \<Rightarrow> (Inl err, w2))
                      else (Inl err, w2)))))"

section \<open>Vocabulary of the specification\<close>

text \<open>
  \<open>js_nonneg\<close> says that a number is not NaN and not below zero.  \<open>is_numeric_text s\<close> says
  that the whole of \<open>s\<close>, white space at both ends apart, is one decimal literal; a string that
  is not is called non-numeric.
\<close>

fun js_nonneg :: "jsnumber \<Rightarrow> bool" where
  "js_nonneg (Fin a) = (0 \<le> a)"
| "js_nonneg PInf = True"
| "js_nonneg NInf = False"
| "js_nonneg NaN = False"

definition is_exponent_part :: "string \<Rightarrow> bool" where
  "is_exponent_part s =
     (case s of
        [] \<Rightarrow> False
      | c # t \<Rightarrow>
          (c = CHR ''e'' \<or> c = CHR ''E'') \<and>
          (case t of
             [] \<Rightarrow> False
           | d # u \<Rightarrow>
               if d = CHR ''+'' \<or> d = CHR ''-'' then u \<noteq> [] \<and> list_all is_digit u
               else list_all is_digit t))"

definition is_unsigned_literal :: "string \<Rightarrow> bool" where
  "is_unsigned_literal s =
     (s = ''Infinity'' \<or>
      (let ip = takeWhile is_digit s; r = dropWhile is_digit s in
       case r of
         [] \<Rightarrow> ip \<noteq> []
       | c # r2 \<Rightarrow>
           if c = CHR ''.'' then
             (let fp = takeWhile is_digit r2; r3 = dropWhile is_digit r2 in
              (ip \<noteq> [] \<or> fp \<noteq> []) \<and> (r3 = [] \<or> is_exponent_part r3))
           else ip \<noteq> [] \<and> is_exponent_part r))"

definition is_decimal_literal :: "string \<Rightarrow> bool" where
  "is_decimal_literal s =
     (case s of
        [] \<Rightarrow> False
      | c # u \<Rightarrow> if c = CHR ''+'' \<or> c = CHR ''-'' then is_unsigned_literal u
                 else is_unsigned_literal s)"

definition trim :: "string \<Rightarrow> string" where
  "trim s = dropWhile is_space (rev (dropWhile is_space (rev s)))"

definition is_numeric_text :: "string \<Rightarrow> bool" where
  "is_numeric_text s = is_decimal_literal (trim s)"

text \<open>The raw entry of the worked example, for any name and context length.\<close>

definition example_entry :: "string \<Rightarrow> jsnumber option \<Rightarrow> OpenRouterModel" where
  "example_entry nm cl =
     \<lparr> raw_id = ''anthropic/claude-3'', raw_name = nm, context_length = cl,
       pricing = Some \<lparr> prompt = PString ''0.000003'', completion = PString ''0.000015'' \<rparr> \<rparr>"

text \<open>
  \<open>has_numeric_prefix s\<close> says that \<open>s\<close>, after its leading white space and an optional sign,
  starts with \<^verbatim>\<open>Infinity\<close>, with a digit, or with a point and a digit: these are the strings
  of which some prefix is a decimal literal.  \<open>price_zeroed v\<close> lists the raw price fields
  that carry no usable price: an absent field, a string without a numeric prefix, the number
  NaN, and a value that parses to a negative number.
\<close>

definition strip_sign :: "string \<Rightarrow> string" where
  "strip_sign t =
     (case t of [] \<Rightarrow> [] | c # r \<Rightarrow> if c = CHR ''+'' \<or> c = CHR ''-'' then r else t)"

definition has_numeric_prefix :: "string \<Rightarrow> bool" where
  "has_numeric_prefix s =
     (let u = strip_sign (dropWhile is_space s) in
      startsWith u ''Infinity'' \<or>
      (case u of
         [] \<Rightarrow> False
       | c # r \<Rightarrow> is_digit c \<or>
                  (c = CHR ''.'' \<and> (case r of [] \<Rightarrow> False | d # _ \<Rightarrow> is_digit d))))"

fun price_zeroed :: "price_value \<Rightarrow> bool" where
  "price_zeroed PUndefined = True"
| "price_zeroed PNull = True"
| "price_zeroed (PString s) = (\<not> has_numeric_prefix s \<or> js_less (parseFloat s) (Fin 0))"
| "price_zeroed (PNumber n) = (isNaN n \<or> js_less n (Fin 0))"

text \<open>
  A finite decimal literal, by its parts: an optional sign, the integer digits, an optional
  fraction (the digits after the point) and an optional exponent (the indicator \<^verbatim>\<open>e\<close> or
  \<^verbatim>\<open>E\<close>, an optional sign and the digits).  \<open>well_formed\<close> is the grammar of the language
  definition, \<open>literal_text\<close> the text of a literal and \<open>literal_value\<close> the number it denotes.
  \<open>stops d rest\<close> says that the literal \<open>d\<close> is the longest one at the start of its text
  followed by \<open>rest\<close>: \<open>rest\<close> does not start with a digit; when \<open>d\<close> has no exponent, \<open>rest\<close>
  does not start with one (an indicator, an optional sign and a digit); and when \<open>d\<close> has
  neither a fraction nor an exponent, \<open>rest\<close> does not start with a point.
\<close>

record decimal =
  lit_sign :: string
  int_digits :: string
  fraction :: "string option"
  exponent :: "(char \<times> string \<times> string) option"

definition is_sign :: "string \<Rightarrow> bool" where
  "is_sign sg = (sg = [] \<or> sg = ''+'' \<or> sg = ''-'')"

definition sign_factor :: "string \<Rightarrow> int" where
  "sign_factor sg = (if sg = ''-'' then - 1 else 1)"

definition mantissa_ok :: "string \<Rightarrow> string option \<Rightarrow> bool" where
  "mantissa_ok ip fr =
     (list_all is_digit ip \<and>
      (case fr of
         None \<Rightarrow> ip \<noteq> []
       | Some fp \<Rightarrow> list_all is_digit fp \<and> (ip \<noteq> [] \<or> fp \<noteq> [])))"

definition exponent_ok :: "(char \<times> string \<times> string) option \<Rightarrow> bool" where
  "exponent_ok ex =
     (case ex of
        None \<Rightarrow> True
      | Some (c, es, ed) \<Rightarrow>
          (c = CHR ''e'' \<or> c = CHR ''E'') \<and> is_sign es \<and> ed \<noteq> [] \<and> list_all is_digit ed)"

definition well_formed :: "decimal \<Rightarrow> bool" where
  "well_formed d =
     (is_sign (lit_sign d) \<and> mantissa_ok (int_digits d) (fraction d) \<and> exponent_ok (exponent d))"

definition fraction_text :: "string option \<Rightarrow> string" where
  "fraction_text fr = (case fr of None \<Rightarrow> [] | Some fp \<Rightarrow> CHR ''.'' # fp)"

definition exponent_text :: "(char \<times> string \<times> string) option \<Rightarrow> string" where
  "exponent_text ex = (case ex of None \<Rightarrow> [] | Some (c, es, ed) \<Rightarrow> c # es @ ed)"

definition literal_text :: "decimal \<Rightarrow> string" where
  "literal_text d =
     lit_sign d @ int_digits d @ fraction_text (fraction d) @ exponent_text (exponent d)"

definition mantissa_value :: "string \<Rightarrow> string option \<Rightarrow> real" where
  "mantissa_value ip fr =
     real (digits_val ip) +
     (case fr of None \<Rightarrow> 0 | Some fp \<Rightarrow> real (digits_val fp) / 10 ^ length fp)"

definition exponent_value :: "(char \<times> string \<times> string) option \<Rightarrow> int" where
  "exponent_value ex =
     (case ex of None \<Rightarrow> 0 | Some (c, es, ed) \<Rightarrow> sign_factor es * int (digits_val ed))"

definition literal_value :: "decimal \<Rightarrow> real" where
  "literal_value d =
     real_of_int (sign_factor (lit_sign d)) *
     (mantissa_value (int_digits d) (fraction d) * pow10 (exponent_value (exponent d)))"

definition no_digit_ahead :: "string \<Rightarrow> bool" where
  "no_digit_ahead r = (case r of [] \<Rightarrow> True | c # _ \<Rightarrow> \<not> is_digit c)"

definition starts_exponent :: "string \<Rightarrow> bool" where
  "starts_exponent r =
     (case r of
        [] \<Rightarrow> False
      | c # t \<Rightarrow>
          (c = CHR ''e'' \<or> c = CHR ''E'') \<and>
          (case t of
             [] \<Rightarrow> False
           | d # u \<Rightarrow>
               if d = CHR ''+'' \<or> d = CHR ''-'' then (case u of [] \<Rightarrow> False | x # _ \<Rightarrow> is_digit x)
               else is_digit d))"

definition stops :: "decimal \<Rightarrow> string \<Rightarrow> bool" where
  "stops d rest =
     (no_digit_ahead rest \<and>
      (exponent d = None \<longrightarrow> \<not> starts_exponent rest) \<and>
      (exponent d = None \<and> fraction d = None \<longrightarrow> \<not> startsWith rest ''.''))"

text \<open>
  Sample data: \<open>priced_entry\<close> is a raw entry with the given id and prices, and the catalogs
  below are priced so that one million input tokens and no output tokens give small integer
  costs.
\<close>

definition priced_entry :: "string \<Rightarrow> price_value \<Rightarrow> price_value \<Rightarrow> OpenRouterModel" where
  "priced_entry ident p c =
     \<lparr> raw_id = ident, raw_name = ident, context_length = None,
       pricing = Some \<lparr> prompt = p, completion = c \<rparr> \<rparr>"

text \<open>
  \<open>field_not_NaN f d\<close> says that the value of record \<open>d\<close> in the sort field \<open>f\<close> is not NaN
  (a string never is).  \<open>out_of_order f ord a b\<close> says that, in the requested order, \<open>b\<close>
  belongs strictly before \<open>a\<close>.
\<close>

definition field_not_NaN :: "SortField \<Rightarrow> CostCalculation \<Rightarrow> bool" where
  "field_not_NaN sortField d =
     (case sortField of
        Sort_name \<Rightarrow> True
      | Sort_provider \<Rightarrow> True
      | Sort_contextWindow \<Rightarrow> \<not> isNaN (contextWindow (model d))
      | Sort_inputPrice \<Rightarrow> \<not> isNaN (inputPricePerMillion (model d))
      | Sort_outputPrice \<Rightarrow> \<not> isNaN (outputPricePerMillion (model d))
      | Sort_totalCost \<Rightarrow> \<not> isNaN (totalCost d))"

definition out_of_order :: "SortField \<Rightarrow> SortOrder \<Rightarrow> CostCalculation \<Rightarrow> CostCalculation \<Rightarrow> bool" where
  "out_of_order sortField sortOrder a b =
     (if sortOrder = asc then val_less sortField b a else val_less sortField a b)"

text \<open>
  \<open>arranged sel f ord data out\<close> is the contract of the table sort: \<open>out\<close> is a permutation
  of \<open>data\<close>; no unselected record stands before a selected one; within the selected and
  within the unselected records no record stands before one that belongs strictly before it;
  and the records that compare equal to a given record of \<open>data\<close> (the comparator returns 0)
  come in the order they have in \<open>data\<close>.
\<close>

definition arranged ::
  "string set \<Rightarrow> SortField \<Rightarrow> SortOrder \<Rightarrow> CostCalculation list \<Rightarrow> CostCalculation list
     \<Rightarrow> bool" where
  "arranged sel f ord data out =
     (mset out = mset data \<and>
      (\<forall>i j. i < j \<and> j < length out \<and> model_id (model (out ! j)) \<in> sel
          \<longrightarrow> model_id (model (out ! i)) \<in> sel) \<and>
      (\<forall>i j. i < j \<and> j < length out \<and>
          (model_id (model (out ! i)) \<in> sel \<longleftrightarrow> model_id (model (out ! j)) \<in> sel)
          \<longrightarrow> \<not> out_of_order f ord (out ! i) (out ! j)) \<and>
      (\<forall>a \<in> set data. filter (\<lambda>b. compareFn sel f ord a b = 0) out =
                        filter (\<lambda>b. compareFn sel f ord a b = 0) data))"

definition demo_catalog :: "OpenRouterModel list" where
  "demo_catalog =
     [priced_entry ''openai/gpt-4o'' (PString ''0.000002'') (PString ''0.000004''),
      priced_entry ''anthropic/claude-3'' (PString ''0.000001'') (PString ''0.000005'')]"

definition demo_costs :: "CostCalculation list" where
  "demo_costs = allCosts (map normalizeModel demo_catalog) (Fin 1000000) (Fin 0)"

definition nan_catalog :: "OpenRouterModel list" where
  "nan_catalog =
     [priced_entry ''acme/x'' (PString ''0.000002'') (PString ''0''),
      priced_entry ''acme/y'' (PString ''0'') (PString ''Infinity''),
      priced_entry ''acme/z'' (PString ''0.000001'') (PString ''0'')]"

definition nan_costs :: "CostCalculation list" where
  "nan_costs = allCosts (map normalizeModel nan_catalog) (Fin 1000000) (Fin 0)"

definition abc_catalog :: "OpenRouterModel list" where
  "abc_catalog =
     [priced_entry ''acme/a'' (PString ''0.000005'') (PString ''0''),
      priced_entry ''acme/b'' (PString ''0.000001'') (PString ''0''),
      priced_entry ''acme/c'' (PString ''0.000005'') (PString ''0'')]"

definition abc_costs :: "CostCalculation list" where
  "abc_costs = allCosts (map normalizeModel abc_catalog) (Fin 1000000) (Fin 0)"

text \<open>
  \<open>parseable c\<close> says that a cache entry exists and \<^verbatim>\<open>JSON.parse\<close> accepts its text;
  \<open>cached_models c\<close> is the \<^verbatim>\<open>models\<close> member of the parsed value when the text parses to
  a value other than \<^verbatim>\<open>null\<close>.  \<open>all_finite m\<close> says that the three numbers of a record are
  finite.
\<close>

definition parseable :: "stored_text option \<Rightarrow> bool" where
  "parseable c = (case c of Some (Text v) \<Rightarrow> True | _ \<Rightarrow> False)"

definition cached_models :: "stored_text option \<Rightarrow> CachedModel list option option" where
  "cached_models c = (case c of Some (Text (JObject ts ms)) \<Rightarrow> Some ms | _ \<Rightarrow> None)"

fun is_finite :: "jsnumber \<Rightarrow> bool" where
  "is_finite (Fin a) = True"
| "is_finite _ = False"

definition all_finite :: "jsnumber UnifiedModelData \<Rightarrow> bool" where
  "all_finite m =
     (is_finite (inputPricePerMillion m) \<and> is_finite (outputPricePerMillion m) \<and>
      is_finite (contextWindow m))"

definition empty_world :: world where
  "empty_world = \<lparr> storage = None, requests = 0 \<rparr>"

definition offline :: "real \<Rightarrow> env" where
  "offline t =
     \<lparr> storage_readable = True, now_check = t, outcome = Rejected, now_write = t,
       storage_writable = True \<rparr>"

definition online :: "real \<Rightarrow> OpenRouterModel list \<Rightarrow> env" where
  "online t rawModels =
     \<lparr> storage_readable = True, now_check = t,
       outcome = Response True ''OK'' (Json (Some (map Some rawModels))), now_write = t,
       storage_writable = True \<rparr>"

definition storage_full :: "real \<Rightarrow> OpenRouterModel list \<Rightarrow> env" where
  "storage_full t rawModels = (online t rawModels)\<lparr> storage_writable := False \<rparr>"

definition stale_world :: world where
  "stale_world =
     \<lparr> storage = Some (Text (JObject (Some (Fin 0))
                         (Some (JSON_roundtrip (map normalizeModel demo_catalog))))),
       requests = 1 \<rparr>"

definition null_world :: world where
  "null_world = \<lparr> storage = Some (Text JNull), requests = 0 \<rparr>"

definition inf_catalog :: "OpenRouterModel list" where
  "inf_catalog = [priced_entry ''acme/y'' (PString ''0'') (PString ''Infinity'')]"

section \<open>Auxiliary facts\<close>

lemmas scan_defs = parseFloat_def scan_unsigned_def is_space_def is_digit_def startsWith_def
  digits_val_def pow10_def scan_exponent_def signed_digits_def

lemmas literal_defs = is_numeric_text_def trim_def is_decimal_literal_def
  is_unsigned_literal_def is_exponent_part_def is_space_def is_digit_def

lemmas provider_defs = guessProvider_def startsWith_def toLowerCase_def toLowerChar_def

subsection \<open>The range of doubles\<close>

lemma overflow_bound_large: "10 ^ 308 < overflow_bound"
  by (simp add: overflow_bound_def)

lemma underflow_bound_small: "0 < underflow_bound" "underflow_bound < 1 / 10 ^ 323"
  by (simp_all add: underflow_bound_def field_simps)

lemma bounds_mid:
  "0 < overflow_bound" "10 ^ 15 < overflow_bound" "underflow_bound < 1 / 10 ^ 12"
proof -
  have "(10::real) ^ 15 \<le> 10 ^ 308" by (rule power_increasing) simp_all
  then show "10 ^ 15 < overflow_bound" using overflow_bound_large by linarith
  then show "0 < overflow_bound" by (rule less_trans[rotated]) simp
  have "(10::real) ^ 12 \<le> 10 ^ 323" by (rule power_increasing) simp_all
  then have "1 / (10::real) ^ 323 \<le> 1 / 10 ^ 12" by (simp add: frac_le)
  then show "underflow_bound < 1 / 10 ^ 12" using underflow_bound_small(2) by linarith
qed

lemma to_double_0 [simp]: "to_double 0 = Fin 0"
  using bounds_mid(1) underflow_bound_small(1) by (simp add: to_double_def)

lemma to_double_in_range:
  assumes "1 / 10 ^ 323 \<le> \<bar>x\<bar>" and "\<bar>x\<bar> \<le> 10 ^ 308"
  shows "to_double x = Fin x"
proof -
  have "\<not> overflow_bound \<le> x" "\<not> x \<le> - overflow_bound" "\<not> \<bar>x\<bar> \<le> underflow_bound"
    using assms overflow_bound_large underflow_bound_small(2) by linarith+
  then show ?thesis by (simp add: to_double_def)
qed

lemma to_double_mid:
  assumes "1 / 10 ^ 12 \<le> \<bar>x\<bar>" and "\<bar>x\<bar> \<le> 10 ^ 15"
  shows "to_double x = Fin x"
proof -
  have "\<not> overflow_bound \<le> x" "\<not> x \<le> - overflow_bound" "\<not> \<bar>x\<bar> \<le> underflow_bound"
    using assms bounds_mid(2,3) by linarith+
  then show ?thesis by (simp add: to_double_def)
qed

lemma to_double_overflow: "10 ^ 309 \<le> x \<Longrightarrow> to_double x = PInf"
proof -
  assume a: "10 ^ 309 \<le> x"
  have "overflow_bound \<le> (10::real) ^ 309" by (simp add: overflow_bound_def)
  with a show ?thesis by (simp add: to_double_def)
qed

lemma isNaN_to_double [simp]: "\<not> isNaN (to_double x)"
  by (simp add: to_double_def)

lemma js_neg_to_double: "js_neg (to_double x) = to_double (- x)"
  using bounds_mid(1) by (auto simp: to_double_def)

lemma to_double_nonneg: "0 \<le> x \<Longrightarrow> to_double x = PInf \<or> to_double x = Fin 0 \<or> to_double x = Fin x"
  using bounds_mid(1) by (auto simp: to_double_def)

subsection \<open>Provider inference\<close>

lemma toLowerChar_slash: "toLowerChar c = CHR ''/'' \<Longrightarrow> c = CHR ''/''"
  by (auto simp: toLowerChar_def split: if_splits)

lemma toLowerCase_no_slash:
  assumes "CHR ''/'' \<notin> set s"
  shows "CHR ''/'' \<notin> set (toLowerCase s)"
proof
  assume "CHR ''/'' \<in> set (toLowerCase s)"
  then obtain c where "c \<in> set s" and "toLowerChar c = CHR ''/''"
    by (auto simp: toLowerCase_def)
  with assms show False
    using toLowerChar_slash by blast
qed

lemma startsWith_mem: "startsWith s p \<Longrightarrow> c \<in> set p \<Longrightarrow> c \<in> set s"
  unfolding startsWith_def by (metis in_set_takeD)

lemma split_no_sep: "sep \<notin> set s \<Longrightarrow> split sep s = [s]"
  by (induction s) auto

lemma not_startsWith_slash:
  "CHR ''/'' \<notin> set s \<Longrightarrow> CHR ''/'' \<in> set p \<Longrightarrow> \<not> startsWith (toLowerCase s) p"
  using startsWith_mem toLowerCase_no_slash by blast

lemma guessProvider_no_slash:
  "CHR ''/'' \<notin> set ident \<Longrightarrow>
   guessProvider ident nm =
     (if startsWith (toLowerCase ident) ''mistral'' then ''Mistral'' else ''Other'')"
  by (simp add: guessProvider_def not_startsWith_slash split_no_sep)

lemma provider_normalizeModel: "provider (normalizeModel m) = guessProvider (raw_id m) (raw_name m)"
  by (simp add: normalizeModel_def Let_def)

subsection \<open>The worked example\<close>

lemma parseFloat_example_prompt: "parseFloat ''0.000003'' = Fin (3 / 1000000)"
  by (simp add: scan_defs to_double_mid)

lemma parseFloat_example_completion: "parseFloat ''0.000015'' = Fin (15 / 1000000)"
  by (simp add: scan_defs to_double_mid)

lemma normalizeModel_example:
  "normalizeModel (example_entry nm cl) =
     \<lparr> model_id = ''anthropic/claude-3'', model_name = nm, provider = ''Anthropic'',
       inputPricePerMillion = Fin 3, outputPricePerMillion = Fin 15,
       contextWindow = or_zero cl \<rparr>"
  by (simp add: normalizeModel_def example_entry_def pricing_prompt_def pricing_completion_def
      parsePrice_def parseFloat_example_prompt parseFloat_example_completion provider_defs
      to_double_mid)

section \<open>Pricing normalizer and cost calculator: verified properties\<close>

text \<open>
  Claim C6, as amended.  For the raw entry with id \<^verbatim>\<open>anthropic/claude-3\<close>, prompt price
  \<^verbatim>\<open>"0.000003"\<close> and completion price \<^verbatim>\<open>"0.000015"\<close> (whatever its name and context
  length), normalization yields 3 and 15 per million tokens and the provider Anthropic; with
  20000 input tokens and 100000 output tokens the calculator then yields the input cost
  \<open>(20000 / 1000000) * 3 = 0.06\<close>, the output cost \<open>(100000 / 1000000) * 15 = 1.5\<close> and the
  total cost \<open>1.56\<close>.
\<close>

theorem example_entry_costs:
  "inputPricePerMillion (normalizeModel (example_entry nm cl)) = Fin 3 \<and>
   outputPricePerMillion (normalizeModel (example_entry nm cl)) = Fin 15 \<and>
   provider (normalizeModel (example_entry nm cl)) = ''Anthropic'' \<and>
   inputCost (calculateModelCost (normalizeModel (example_entry nm cl)) (Fin 20000) (Fin 100000))
     = Fin (6 / 100) \<and>
   outputCost (calculateModelCost (normalizeModel (example_entry nm cl)) (Fin 20000) (Fin 100000))
     = Fin (15 / 10) \<and>
   totalCost (calculateModelCost (normalizeModel (example_entry nm cl)) (Fin 20000) (Fin 100000))
     = Fin (156 / 100)"
  by (simp add: normalizeModel_example calculateModelCost_def to_double_mid)

text \<open>
  The costs that claim C6 states, 0.00006, 0.0015 and 0.00156, are a thousand times smaller
  than the ones the calculator returns: none of the three is attained.
\<close>

theorem example_entry_costs_counterexample:
  "inputCost (calculateModelCost (normalizeModel (example_entry ''Claude 3'' None))
       (Fin 20000) (Fin 100000)) \<noteq> Fin (6 / 100000) \<and>
   outputCost (calculateModelCost (normalizeModel (example_entry ''Claude 3'' None))
       (Fin 20000) (Fin 100000)) \<noteq> Fin (15 / 10000) \<and>
   totalCost (calculateModelCost (normalizeModel (example_entry ''Claude 3'' None))
       (Fin 20000) (Fin 100000)) \<noteq> Fin (156 / 100000)"
  by (simp add: normalizeModel_example calculateModelCost_def to_double_mid)

text \<open>
  Claim C7, as amended.  For every raw catalog entry whose id contains no \<^verbatim>\<open>/\<close>, provider
  inference yields \<^verbatim>\<open>Mistral\<close> when the id starts with \<^verbatim>\<open>mistral\<close> in any letter case
  (the one rule of the table whose prefix has no slash) and the sentinel \<^verbatim>\<open>Other\<close>
  otherwise.  \<open>guessProvider\<close> is a function defined on every id, so the inference is total
  and deterministic.
\<close>

theorem provider_without_slash:
  "CHR ''/'' \<notin> set (raw_id m) \<Longrightarrow>
   provider (normalizeModel m) =
     (if startsWith (toLowerCase (raw_id m)) ''mistral'' then ''Mistral'' else ''Other'')"
  by (simp add: provider_normalizeModel guessProvider_no_slash)

theorem provider_without_slash_witness:
  "CHR ''/'' \<notin> set ''gpt-4o'' \<and>
   provider (normalizeModel \<lparr> raw_id = ''gpt-4o'', raw_name = ''GPT-4o'',
       context_length = None, pricing = None \<rparr>) = ''Other''"
  using provider_without_slash
    [of "\<lparr> raw_id = ''gpt-4o'', raw_name = ''GPT-4o'', context_length = None, pricing = None \<rparr>"]
  by (simp add: startsWith_def toLowerCase_def toLowerChar_def)

text \<open>
  An id without a slash that starts with \<^verbatim>\<open>mistral\<close> is labelled \<^verbatim>\<open>Mistral\<close>, not
  \<^verbatim>\<open>Other\<close>.
\<close>

theorem provider_without_slash_counterexample:
  "CHR ''/'' \<notin> set ''mistral-7b'' \<and>
   provider (normalizeModel \<lparr> raw_id = ''mistral-7b'', raw_name = ''Mistral 7B'',
       context_length = None, pricing = None \<rparr>) \<noteq> ''Other''"
  by (simp add: normalizeModel_def provider_defs)

text \<open>
  Claim C9, as amended.  For every raw catalog entry, the context window of the normalized
  record equals the provided context length when that is a number other than 0 and NaN, in
  particular when it is a positive integer, and equals 0 when the context length is absent,
  0 or NaN.
\<close>

theorem contextWindow_default:
  "(\<forall>k::nat. 0 < k \<and> context_length m = Some (Fin (real k))
       \<longrightarrow> contextWindow (normalizeModel m) = Fin (real k)) \<and>
   (\<forall>n. context_length m = Some n \<and> n \<noteq> Fin 0 \<and> \<not> isNaN n
       \<longrightarrow> contextWindow (normalizeModel m) = n) \<and>
   (context_length m = None \<or> context_length m = Some (Fin 0) \<or> context_length m = Some NaN
       \<longrightarrow> contextWindow (normalizeModel m) = Fin 0)"
  by (auto simp: normalizeModel_def or_zero_def Let_def)

theorem contextWindow_default_witness:
  "contextWindow (normalizeModel \<lparr> raw_id = ''openai/gpt-4o'', raw_name = ''GPT-4o'',
       context_length = Some (Fin (real (128000::nat))), pricing = None \<rparr>) = Fin 128000 \<and>
   contextWindow (normalizeModel \<lparr> raw_id = ''openai/gpt-4o'', raw_name = ''GPT-4o'',
       context_length = None, pricing = None \<rparr>) = Fin 0"
  using contextWindow_default
    [of "\<lparr> raw_id = ''openai/gpt-4o'', raw_name = ''GPT-4o'',
          context_length = Some (Fin (real (128000::nat))), pricing = None \<rparr>"]
    contextWindow_default
    [of "\<lparr> raw_id = ''openai/gpt-4o'', raw_name = ''GPT-4o'',
          context_length = None, pricing = None \<rparr>"]
  by simp

text \<open>
  A negative context length is truthy, so \<^verbatim>\<open>context_length || 0\<close> passes it through: the
  context window is then neither 0 nor non-negative.
\<close>

theorem contextWindow_default_counterexample:
  "contextWindow (normalizeModel \<lparr> raw_id = ''openai/gpt-4o'', raw_name = ''GPT-4o'',
       context_length = Some (Fin (- 5)), pricing = None \<rparr>) = Fin (- 5) \<and>
   \<not> js_nonneg (contextWindow (normalizeModel \<lparr> raw_id = ''openai/gpt-4o'',
       raw_name = ''GPT-4o'', context_length = Some (Fin (- 5)), pricing = None \<rparr>))"
  by (simp add: normalizeModel_def or_zero_def Let_def)

subsection \<open>Price sanitization\<close>

lemma isNaN_js_neg: "isNaN (js_neg x) = isNaN x"
  by (cases x) auto

lemma takeWhile_digit_Nil: "takeWhile is_digit u = [] \<longleftrightarrow> (case u of [] \<Rightarrow> True | c # _ \<Rightarrow> \<not> is_digit c)"
  by (cases u) auto

lemma isNaN_scan_unsigned:
  "isNaN (scan_unsigned u) \<longleftrightarrow>
     \<not> (startsWith u ''Infinity'' \<or>
        (case u of [] \<Rightarrow> False
         | c # r \<Rightarrow> is_digit c \<or> (c = CHR ''.'' \<and> (case r of [] \<Rightarrow> False | d # _ \<Rightarrow> is_digit d))))"
proof (cases u)
  case Nil
  then show ?thesis by (simp add: scan_unsigned_def startsWith_def)
next
  case (Cons c t)
  show ?thesis
  proof (cases "startsWith u ''Infinity''")
    case True
    then show ?thesis by (simp add: scan_unsigned_def)
  next
    case False
    show ?thesis
    proof (cases "is_digit c")
      case True
      then show ?thesis using False Cons
        by (auto simp: scan_unsigned_def Let_def split: list.splits)
    next
      case nd: False
      then show ?thesis using False Cons
        by (auto simp: scan_unsigned_def Let_def takeWhile_digit_Nil split: list.splits)
    qed
  qed
qed

lemma isNaN_signed:
  "isNaN (case t of [] \<Rightarrow> NaN
          | c # u \<Rightarrow> if c = CHR ''+'' then scan_unsigned u
                     else if c = CHR ''-'' then js_neg (scan_unsigned u)
                     else scan_unsigned (c # u)) \<longleftrightarrow>
   \<not> (startsWith (strip_sign t) ''Infinity'' \<or>
      (case strip_sign t of
         [] \<Rightarrow> False
       | c # r \<Rightarrow> is_digit c \<or>
                  (c = CHR ''.'' \<and> (case r of [] \<Rightarrow> False | d # _ \<Rightarrow> is_digit d))))"
proof (cases t)
  case Nil
  then show ?thesis by (simp add: strip_sign_def startsWith_def)
next
  case (Cons c u)
  then show ?thesis
    by (simp add: strip_sign_def isNaN_js_neg isNaN_scan_unsigned)
qed

lemma isNaN_parseFloat: "isNaN (parseFloat s) \<longleftrightarrow> \<not> has_numeric_prefix s"
  unfolding parseFloat_def has_numeric_prefix_def Let_def
  by (rule isNaN_signed)

lemma parsePrice_zero_cases:
  "price_zeroed v \<Longrightarrow> parsePrice v = Fin 0"
proof (cases v)
  case (PString s)
  assume "price_zeroed v"
  then show ?thesis using PString isNaN_parseFloat[of s]
    by (cases "parseFloat s") (auto simp: parsePrice_def)
next
  case (PNumber n)
  assume "price_zeroed v"
  then show ?thesis using PNumber
    by (cases n) (auto simp: parsePrice_def)
qed (simp_all add: parsePrice_def)

lemma parsePrice_nonneg: "js_nonneg (parsePrice v)"
  by (cases "parseFloat_String v") (auto simp: parsePrice_def)

lemma js_nonneg_to_double: "0 \<le> x \<Longrightarrow> js_nonneg (to_double x)"
  using to_double_nonneg[of x] by auto

lemma times_million_nonneg: "js_nonneg x \<Longrightarrow> js_nonneg (js_times x (Fin 1000000))"
  by (cases x) (auto simp: js_nonneg_to_double)

lemma prices_normalizeModel:
  "inputPricePerMillion (normalizeModel m) = js_times (parsePrice (pricing_prompt m)) (Fin 1000000)"
  "outputPricePerMillion (normalizeModel m) = js_times (parsePrice (pricing_completion m)) (Fin 1000000)"
  by (simp_all add: normalizeModel_def Let_def)

subsection \<open>The scanner against the literal grammar\<close>

lemma digit_chars:
  "is_digit c \<Longrightarrow> \<not> is_space c"
  "is_digit c \<Longrightarrow> c \<noteq> CHR ''+''" "is_digit c \<Longrightarrow> c \<noteq> CHR ''-''"
  "is_digit c \<Longrightarrow> c \<noteq> CHR ''.''" "is_digit c \<Longrightarrow> c \<noteq> CHR ''e''" "is_digit c \<Longrightarrow> c \<noteq> CHR ''E''"
  "is_digit c \<Longrightarrow> c \<noteq> CHR ''I''"
  by (auto simp: is_digit_def is_space_def)

lemma special_chars:
  "\<not> is_digit CHR ''.''" "\<not> is_digit CHR ''e''" "\<not> is_digit CHR ''E''"
  "\<not> is_digit CHR ''+''" "\<not> is_digit CHR ''-''"
  "\<not> is_space CHR ''.''" "\<not> is_space CHR ''+''" "\<not> is_space CHR ''-''"
  by (simp_all add: is_digit_def is_space_def)

lemma takeWhile_digits:
  "list_all is_digit ds \<Longrightarrow> no_digit_ahead r \<Longrightarrow> takeWhile is_digit (ds @ r) = ds"
  by (induction ds) (auto simp: no_digit_ahead_def split: list.splits)


lemma takeWhile_no_digit: "no_digit_ahead r \<Longrightarrow> takeWhile is_digit r = []"
  by (cases r) (auto simp: no_digit_ahead_def)

lemma dropWhile_no_digit: "no_digit_ahead r \<Longrightarrow> dropWhile is_digit r = r"
  by (cases r) (auto simp: no_digit_ahead_def)

lemma dropWhile_digits:
  "list_all is_digit ds \<Longrightarrow> no_digit_ahead r \<Longrightarrow> dropWhile is_digit (ds @ r) = r"
  by (induction ds) (auto simp: dropWhile_no_digit)

lemma stops_no_digit: "stops d r \<Longrightarrow> no_digit_ahead r"
  by (simp add: stops_def)

lemma scan_exponent_none: "\<not> starts_exponent r \<Longrightarrow> scan_exponent r = 0"
  by (auto simp: starts_exponent_def scan_exponent_def signed_digits_def takeWhile_digit_Nil
      split: list.splits if_splits)

lemma signed_digits_text:
  "ed \<noteq> [] \<Longrightarrow> list_all is_digit ed \<Longrightarrow> no_digit_ahead r \<Longrightarrow>
   signed_digits sg (ed @ r) = sg * int (digits_val ed)"
  by (simp add: signed_digits_def takeWhile_digits)

lemma scan_exponent_text:
  assumes "exponent_ok ex" and nd: "no_digit_ahead r" and ne: "ex = None \<longrightarrow> \<not> starts_exponent r"
  shows "scan_exponent (exponent_text ex @ r) = exponent_value ex"
proof (cases ex)
  case None
  then show ?thesis using ne by (simp add: exponent_text_def exponent_value_def scan_exponent_none)
next
  case (Some t)
  obtain c es ed where t: "t = (c, es, ed)" by (cases t)
  have ok: "c = CHR ''e'' \<or> c = CHR ''E''" "is_sign es" "ed \<noteq> []" "list_all is_digit ed"
    using assms(1) Some t by (auto simp: exponent_ok_def)
  obtain d ds where ed: "ed = d # ds" using ok(3) by (cases ed) auto
  have dd: "is_digit d" using ok(4) ed by simp
  consider "es = []" | "es = ''+''" | "es = ''-''" using ok(2) by (auto simp: is_sign_def)
  then have "scan_exponent (c # es @ ed @ r) = sign_factor es * int (digits_val ed)"
  proof cases
    case 1
    have "scan_exponent (c # ed @ r) = signed_digits 1 (ed @ r)"
      using ok(1) ed dd by (auto simp: scan_exponent_def digit_chars)
    then show ?thesis using 1 ok nd by (simp add: signed_digits_text sign_factor_def)
  next
    case 2
    have "scan_exponent (c # ''+'' @ ed @ r) = signed_digits 1 (ed @ r)"
      using ok(1) by (auto simp: scan_exponent_def)
    then show ?thesis using 2 ok nd by (simp add: signed_digits_text sign_factor_def)
  next
    case 3
    have "scan_exponent (c # ''-'' @ ed @ r) = signed_digits (- 1) (ed @ r)"
      using ok(1) by (auto simp: scan_exponent_def)
    then show ?thesis using 3 ok nd by (simp add: signed_digits_text sign_factor_def)
  qed
  then show ?thesis using Some t by (simp add: exponent_text_def exponent_value_def)
qed

lemma exponent_text_no_digit:
  assumes "exponent_ok ex" "no_digit_ahead r"
  shows "no_digit_ahead (exponent_text ex @ r)"
  using assms
  by (auto simp: exponent_ok_def exponent_text_def no_digit_ahead_def special_chars
      split: option.splits list.splits)

lemma exponent_text_no_point:
  assumes "exponent_ok ex" "ex = None \<longrightarrow> \<not> startsWith r ''.''"
  shows "(case exponent_text ex @ r of [] \<Rightarrow> True | c # _ \<Rightarrow> c \<noteq> CHR ''.'')"
  using assms
  by (auto simp: exponent_ok_def exponent_text_def startsWith_def
      split: option.splits list.splits)

lemma startsWith_Infinity: "startsWith s ''Infinity'' \<Longrightarrow> \<exists>t. s = CHR ''I'' # t"
  by (cases s) (auto simp: startsWith_def)

lemma mantissa_head:
  assumes "mantissa_ok ip fr"
  shows "\<exists>h t. ip @ fraction_text fr @ r = h # t \<and> (is_digit h \<or> h = CHR ''.'')"
proof (cases ip)
  case Nil
  then obtain fp where "fr = Some fp" using assms by (cases fr) (auto simp: mantissa_ok_def)
  then show ?thesis using Nil by (simp add: fraction_text_def)
next
  case (Cons a list)
  then show ?thesis using assms by (simp add: mantissa_ok_def)
qed

lemma pow10_0: "pow10 0 = 1"
  by (simp add: pow10_def)

lemma scan_unsigned_steps:
  assumes "\<not> startsWith s ''Infinity''" "takeWhile is_digit s = ip" "dropWhile is_digit s = r"
  shows "scan_unsigned s =
     (case r of
        [] \<Rightarrow> if ip = [] then NaN else to_double (real (digits_val ip))
      | c # r2 \<Rightarrow>
          if c = CHR ''.'' then
            (if ip = [] \<and> takeWhile is_digit r2 = [] then NaN
             else to_double ((real (digits_val ip) +
                        real (digits_val (takeWhile is_digit r2)) / 10 ^ length (takeWhile is_digit r2))
                       * pow10 (scan_exponent (dropWhile is_digit r2))))
          else if ip = [] then NaN
          else to_double (real (digits_val ip) * pow10 (scan_exponent r)))"
  using assms by (auto simp: scan_unsigned_def Let_def split: list.splits)

lemma scan_unsigned_literal:
  assumes m: "mantissa_ok ip fr" and e: "exponent_ok ex" and nd0: "no_digit_ahead r"
    and nex: "ex = None \<longrightarrow> \<not> starts_exponent r"
    and npt: "ex = None \<and> fr = None \<longrightarrow> \<not> startsWith r ''.''"
  shows "scan_unsigned (ip @ fraction_text fr @ exponent_text ex @ r) =
         to_double (mantissa_value ip fr * pow10 (exponent_value ex))"
proof -
  define tail where "tail = exponent_text ex @ r"
  have nd: "no_digit_ahead tail"
    using exponent_text_no_digit[OF e nd0] by (simp add: tail_def)
  have se: "scan_exponent tail = exponent_value ex"
    unfolding tail_def by (rule scan_exponent_text[OF e nd0 nex])
  have digs: "list_all is_digit ip" using m by (simp add: mantissa_ok_def)
  obtain h t where ht: "ip @ fraction_text fr @ tail = h # t" "is_digit h \<or> h = CHR ''.''"
    using mantissa_head[OF m] by blast
  have noinf: "\<not> startsWith (ip @ fraction_text fr @ tail) ''Infinity''"
  proof
    assume "startsWith (ip @ fraction_text fr @ tail) ''Infinity''"
    then have "h = CHR ''I''" using ht(1) startsWith_Infinity by fastforce
    then show False using ht(2) by (auto simp: is_digit_def)
  qed
  have "scan_unsigned (ip @ fraction_text fr @ tail) =
         to_double (mantissa_value ip fr * pow10 (exponent_value ex))"
  proof (cases fr)
    case None
    then have ne: "ip \<noteq> []" using m by (simp add: mantissa_ok_def)
    have "ex = None \<longrightarrow> \<not> startsWith r ''.''" using npt None by simp
    then have ndot: "(case tail of [] \<Rightarrow> True | c # _ \<Rightarrow> c \<noteq> CHR ''.'')"
      unfolding tail_def by (rule exponent_text_no_point[OF e])
    have tw: "takeWhile is_digit (ip @ tail) = ip" "dropWhile is_digit (ip @ tail) = tail"
      using digs nd by (simp_all add: takeWhile_digits dropWhile_digits)
    show ?thesis
    proof (cases tail)
      case Nil
      then have "ex = None" by (cases ex) (auto simp: exponent_text_def tail_def)
      then have "exponent_value ex = 0" by (simp add: exponent_value_def)
      moreover have "scan_unsigned (ip @ tail) =
          (if ip = [] then NaN else to_double (real (digits_val ip)))"
        using scan_unsigned_steps[OF _ tw] noinf None Nil by (simp add: fraction_text_def)
      ultimately show ?thesis using None ne
        by (simp add: fraction_text_def mantissa_value_def pow10_0)
    next
      case (Cons c r2)
      then have "c \<noteq> CHR ''.''" using ndot by simp
      moreover have "scan_unsigned (ip @ tail) =
          (case tail of
             [] \<Rightarrow> if ip = [] then NaN else to_double (real (digits_val ip))
           | c # r2 \<Rightarrow>
               if c = CHR ''.'' then
                 (if ip = [] \<and> takeWhile is_digit r2 = [] then NaN
                  else to_double ((real (digits_val ip) +
                        real (digits_val (takeWhile is_digit r2)) / 10 ^ length (takeWhile is_digit r2))
                       * pow10 (scan_exponent (dropWhile is_digit r2))))
               else if ip = [] then NaN
               else to_double (real (digits_val ip) * pow10 (scan_exponent tail)))"
        using scan_unsigned_steps[OF _ tw] noinf None by (simp add: fraction_text_def)
      ultimately show ?thesis using None Cons ne se
        by (simp add: fraction_text_def mantissa_value_def)
    qed
  next
    case (Some fp)
    then have fd: "list_all is_digit fp" and ne: "ip \<noteq> [] \<or> fp \<noteq> []"
      using m by (simp_all add: mantissa_ok_def)
    have nd1: "no_digit_ahead (CHR ''.'' # fp @ tail)" by (simp add: no_digit_ahead_def special_chars)
    have tw: "takeWhile is_digit (ip @ CHR ''.'' # fp @ tail) = ip"
      "dropWhile is_digit (ip @ CHR ''.'' # fp @ tail) = CHR ''.'' # fp @ tail"
      using digs nd1 takeWhile_digits[of ip "CHR ''.'' # fp @ tail"]
        dropWhile_digits[of ip "CHR ''.'' # fp @ tail"] by simp_all
    have tw2: "takeWhile is_digit (fp @ tail) = fp" "dropWhile is_digit (fp @ tail) = tail"
      using fd nd by (simp_all add: takeWhile_digits dropWhile_digits)
    have "scan_unsigned (ip @ CHR ''.'' # fp @ tail) =
          (if ip = [] \<and> takeWhile is_digit (fp @ tail) = [] then NaN
           else to_double ((real (digits_val ip) +
                  real (digits_val (takeWhile is_digit (fp @ tail))) /
                    10 ^ length (takeWhile is_digit (fp @ tail)))
                 * pow10 (scan_exponent (dropWhile is_digit (fp @ tail)))))"
      using scan_unsigned_steps[OF _ tw] noinf Some by (simp add: fraction_text_def)
    then show ?thesis using Some ne se
      by (auto simp: tw2 fraction_text_def mantissa_value_def)
  qed
  then show ?thesis by (simp add: tail_def)
qed

lemma dropWhile_spaces:
  "list_all is_space ws \<Longrightarrow> \<not> is_space h \<Longrightarrow> dropWhile is_space (ws @ h # t) = h # t"
  by (induction ws) auto

lemma parseFloat_literal:
  assumes wf: "well_formed d" and ws: "list_all is_space ws" and r: "stops d rest"
  shows "parseFloat (ws @ literal_text d @ rest) = to_double (literal_value d)"
proof -
  let ?ip = "int_digits d" and ?fr = "fraction d" and ?ex = "exponent d"
  have m: "mantissa_ok ?ip ?fr" and e: "exponent_ok ?ex" and sg: "is_sign (lit_sign d)"
    using wf by (simp_all add: well_formed_def)
  have r3: "no_digit_ahead rest" "?ex = None \<longrightarrow> \<not> starts_exponent rest"
    "?ex = None \<and> ?fr = None \<longrightarrow> \<not> startsWith rest ''.''"
    using r by (simp_all add: stops_def)
  let ?u = "?ip @ fraction_text ?fr @ exponent_text ?ex @ rest"
  let ?v = "mantissa_value ?ip ?fr * pow10 (exponent_value ?ex)"
  have lt: "literal_text d @ rest = lit_sign d @ ?u"
    by (simp add: literal_text_def)
  have su: "scan_unsigned ?u = to_double ?v"
    by (rule scan_unsigned_literal[OF m e r3])
  obtain h t where ht: "?u = h # t" "is_digit h \<or> h = CHR ''.''"
    using mantissa_head[OF m, of "exponent_text ?ex @ rest"] by auto
  have hns: "\<not> is_space h" "h \<noteq> CHR ''+''" "h \<noteq> CHR ''-''"
    using ht(2) by (auto simp: is_digit_def is_space_def)
  have val: "literal_value d = real_of_int (sign_factor (lit_sign d)) * ?v"
    by (simp add: literal_value_def)
  consider "lit_sign d = []" | "lit_sign d = ''+''" | "lit_sign d = ''-''"
    using sg by (auto simp: is_sign_def)
  then show ?thesis
  proof cases
    case 1
    have "dropWhile is_space (ws @ h # t) = h # t" using ws hns by (simp add: dropWhile_spaces)
    then have "parseFloat (ws @ ?u) = scan_unsigned ?u"
      using ht(1) hns by (simp add: parseFloat_def)
    then show ?thesis using 1 lt su val by (simp add: sign_factor_def)
  next
    case 2
    have "dropWhile is_space (ws @ CHR ''+'' # ?u) = CHR ''+'' # ?u"
      using ws by (simp add: dropWhile_spaces special_chars)
    then have "parseFloat (ws @ CHR ''+'' # ?u) = scan_unsigned ?u"
      by (simp add: parseFloat_def)
    then show ?thesis using 2 lt su val by (simp add: sign_factor_def)
  next
    case 3
    have "dropWhile is_space (ws @ CHR ''-'' # ?u) = CHR ''-'' # ?u"
      using ws by (simp add: dropWhile_spaces special_chars)
    then have "parseFloat (ws @ CHR ''-'' # ?u) = js_neg (scan_unsigned ?u)"
      by (simp add: parseFloat_def)
    then show ?thesis using 3 lt su val by (simp add: sign_factor_def js_neg_to_double)
  qed
qed

lemma parseFloat_Infinity:
  assumes ws: "list_all is_space ws" and sg: "is_sign sg"
  shows "parseFloat (ws @ sg @ ''Infinity'' @ rest) = (if sg = ''-'' then NInf else PInf)"
proof -
  have inf: "scan_unsigned (''Infinity'' @ rest) = PInf"
    by (simp add: scan_unsigned_def startsWith_def)
  consider "sg = []" | "sg = ''+''" | "sg = ''-''" using sg by (auto simp: is_sign_def)
  then show ?thesis
  proof cases
    case 1
    have "dropWhile is_space (ws @ CHR ''I'' # ''nfinity'' @ rest) = CHR ''I'' # ''nfinity'' @ rest"
      using ws by (rule dropWhile_spaces) (simp add: is_space_def)
    then show ?thesis using 1 inf by (simp add: parseFloat_def)
  next
    case 2
    have "dropWhile is_space (ws @ CHR ''+'' # ''Infinity'' @ rest) = CHR ''+'' # ''Infinity'' @ rest"
      using ws by (rule dropWhile_spaces) (simp add: is_space_def)
    then show ?thesis using 2 inf by (simp add: parseFloat_def)
  next
    case 3
    have "dropWhile is_space (ws @ CHR ''-'' # ''Infinity'' @ rest) = CHR ''-'' # ''Infinity'' @ rest"
      using ws by (rule dropWhile_spaces) (simp add: is_space_def)
    then show ?thesis using 3 inf by (simp add: parseFloat_def)
  qed
qed

lemma parsePrice_literal:
  assumes "well_formed d" "list_all is_space ws" "stops d rest"
  shows "parsePrice (PString (ws @ literal_text d @ rest)) = Math_max0 (to_double (literal_value d))"
  using parseFloat_literal[OF assms] by (simp add: parsePrice_def)

lemma Math_max0_to_double_cases:
  "Math_max0 (to_double v) =
     (if overflow_bound \<le> v then PInf else if v \<le> underflow_bound then Fin 0 else Fin v)"
  using bounds_mid(1) underflow_bound_small(1) by (auto simp: to_double_def max_def)

lemma parseFloat_minus_one: "parseFloat ''-1'' = Fin (- 1)"
  by (simp add: scan_defs to_double_mid)

lemma parseFloat_half_per_token: "parseFloat ''0.5 per token'' = Fin (1 / 2)"
  by (simp add: scan_defs to_double_mid)

section \<open>Price sanitization: verified properties\<close>

text \<open>
  Claim C8, as amended.  For every raw catalog entry, the input and output prices per million
  tokens of the normalized record are non-negative (a number at least 0, or +Infinity).
  Whenever a raw price field is absent (\<^verbatim>\<open>undefined\<close>, \<^verbatim>\<open>null\<close>, or no \<^verbatim>\<open>pricing\<close> object
  at all), is a string with no parseable numeric prefix or the number NaN, or parses to a
  negative number, the sanitized price per million equals 0.  A string that starts with a
  number is not clamped for being non-numeric: when a price string is made of optional white
  space, a decimal literal that is the longest one at that place and any text after it, the
  price per million is the product, in double arithmetic, of 1000000 and the larger of 0 and
  the value of the literal as a double.
\<close>

theorem sanitized_prices:
  "js_nonneg (inputPricePerMillion (normalizeModel m)) \<and>
   js_nonneg (outputPricePerMillion (normalizeModel m)) \<and>
   (price_zeroed (pricing_prompt m) \<longrightarrow> inputPricePerMillion (normalizeModel m) = Fin 0) \<and>
   (price_zeroed (pricing_completion m) \<longrightarrow> outputPricePerMillion (normalizeModel m) = Fin 0) \<and>
   (list_all is_space ws \<and> well_formed d \<and> stops d rest \<and>
    pricing_prompt m = PString (ws @ literal_text d @ rest) \<longrightarrow>
      inputPricePerMillion (normalizeModel m) =
        js_times (Math_max0 (to_double (literal_value d))) (Fin 1000000)) \<and>
   (list_all is_space ws \<and> well_formed d \<and> stops d rest \<and>
    pricing_completion m = PString (ws @ literal_text d @ rest) \<longrightarrow>
      outputPricePerMillion (normalizeModel m) =
        js_times (Math_max0 (to_double (literal_value d))) (Fin 1000000))"
  by (simp add: prices_normalizeModel parsePrice_nonneg times_million_nonneg parsePrice_zero_cases
      parsePrice_literal)

theorem sanitized_prices_witness:
  "price_zeroed (pricing_prompt (priced_entry ''acme/unknown'' (PString ''-1'') PUndefined)) \<and>
   price_zeroed (pricing_completion (priced_entry ''acme/unknown'' (PString ''-1'') PUndefined)) \<and>
   inputPricePerMillion
     (normalizeModel (priced_entry ''acme/unknown'' (PString ''-1'') PUndefined)) = Fin 0 \<and>
   outputPricePerMillion
     (normalizeModel (priced_entry ''acme/unknown'' (PString ''-1'') PUndefined)) = Fin 0 \<and>
   list_all is_space '' '' \<and>
   well_formed \<lparr> lit_sign = [], int_digits = ''0'', fraction = Some ''5'', exponent = None \<rparr> \<and>
   stops \<lparr> lit_sign = [], int_digits = ''0'', fraction = Some ''5'', exponent = None \<rparr>
     ''elephants'' \<and>
   inputPricePerMillion
     (normalizeModel (priced_entry ''acme/m1'' (PString '' 0.5elephants'') (PString '' 0.5elephants'')))
     = Fin 500000 \<and>
   outputPricePerMillion
     (normalizeModel (priced_entry ''acme/m1'' (PString '' 0.5elephants'') (PString '' 0.5elephants'')))
     = Fin 500000"
  using sanitized_prices
    [of "priced_entry ''acme/unknown'' (PString ''-1'') PUndefined"]
    sanitized_prices
    [of "priced_entry ''acme/m1'' (PString '' 0.5elephants'') (PString '' 0.5elephants'')"
        "'' ''" "\<lparr> lit_sign = [], int_digits = ''0'', fraction = Some ''5'', exponent = None \<rparr>"
        "''elephants''"]
  by (simp add: priced_entry_def pricing_prompt_def pricing_completion_def parseFloat_minus_one
      well_formed_def is_sign_def mantissa_ok_def exponent_ok_def stops_def starts_exponent_def
      no_digit_ahead_def literal_text_def fraction_text_def exponent_text_def literal_value_def
      sign_factor_def mantissa_value_def exponent_value_def pow10_def digits_val_def is_digit_def
      is_space_def to_double_mid)

text \<open>
  The string \<^verbatim>\<open>0.5 per token\<close> is not a number, yet its price is not clamped to zero:
  \<^verbatim>\<open>parseFloat\<close> reads the prefix \<^verbatim>\<open>0.5\<close>, and the price per million is 500000.
\<close>

theorem sanitized_prices_counterexample:
  "\<not> is_numeric_text ''0.5 per token'' \<and>
   inputPricePerMillion
     (normalizeModel (priced_entry ''acme/m1'' (PString ''0.5 per token'') (PString ''0'')))
     = Fin 500000"
  by (simp add: literal_defs priced_entry_def normalizeModel_def pricing_prompt_def
      pricing_completion_def parsePrice_def parseFloat_half_per_token to_double_mid)

text \<open>
  Claim C10, as amended.  The price sanitizer does not clamp every non-numeric string to zero.
  For every string made of optional leading white space, a finite decimal literal that is the
  longest one at that place and any text after it (for example \<^verbatim>\<open>0.5 per token\<close>,
  \<^verbatim>\<open>5elephants\<close> or \<^verbatim>\<open>1.5.5\<close>), \<^verbatim>\<open>parsePrice\<close> returns the larger of 0 and the value of
  that literal as a double: +Infinity when the value reaches the overflow threshold of doubles
  (\<^verbatim>\<open>1e400 per token\<close>), 0 when the value is negative or so small that it rounds to zero
  (\<^verbatim>\<open>-1 per token\<close>, \<^verbatim>\<open>1e-400\<close>), and the leading number itself otherwise.  For a string
  made of optional white space, an optional sign and the word \<^verbatim>\<open>Infinity\<close>, whatever
  follows, it returns +Infinity, or 0 when the sign is a minus.  Every string with no
  parseable numeric prefix yields 0.
\<close>

theorem parsePrice_numeric_prefix:
  "(list_all is_space ws \<and> well_formed d \<and> stops d rest \<longrightarrow>
      parsePrice (PString (ws @ literal_text d @ rest)) =
        (if overflow_bound \<le> literal_value d then PInf
         else if literal_value d \<le> underflow_bound then Fin 0
         else Fin (literal_value d))) \<and>
   (list_all is_space ws \<and> is_sign sg \<longrightarrow>
      parsePrice (PString (ws @ sg @ ''Infinity'' @ rest)) = (if sg = ''-'' then Fin 0 else PInf)) \<and>
   (\<not> has_numeric_prefix s \<longrightarrow> parsePrice (PString s) = Fin 0)"
proof (intro conjI impI)
  assume "list_all is_space ws \<and> well_formed d \<and> stops d rest"
  then have "parsePrice (PString (ws @ literal_text d @ rest)) =
      Math_max0 (to_double (literal_value d))"
    by (simp add: parsePrice_literal)
  then show "parsePrice (PString (ws @ literal_text d @ rest)) =
        (if overflow_bound \<le> literal_value d then PInf
         else if literal_value d \<le> underflow_bound then Fin 0
         else Fin (literal_value d))"
    by (simp only: Math_max0_to_double_cases)
next
  assume a: "list_all is_space ws \<and> is_sign sg"
  have "parseFloat (ws @ sg @ ''Infinity'' @ rest) = (if sg = ''-'' then NInf else PInf)"
    by (rule parseFloat_Infinity) (use a in simp_all)
  then show "parsePrice (PString (ws @ sg @ ''Infinity'' @ rest)) =
      (if sg = ''-'' then Fin 0 else PInf)"
    by (simp add: parsePrice_def)
next
  assume "\<not> has_numeric_prefix s"
  then have "price_zeroed (PString s)" by simp
  then show "parsePrice (PString s) = Fin 0" by (rule parsePrice_zero_cases)
qed

theorem parsePrice_numeric_prefix_witness:
  "list_all is_space [] \<and>
   well_formed \<lparr> lit_sign = [], int_digits = ''0'', fraction = Some ''5'', exponent = None \<rparr> \<and>
   stops \<lparr> lit_sign = [], int_digits = ''0'', fraction = Some ''5'', exponent = None \<rparr>
     '' per token'' \<and>
   is_sign ''+'' \<and> \<not> has_numeric_prefix ''free'' \<and>
   parsePrice (PString ''0.5 per token'') = Fin (1 / 2) \<and>
   parsePrice (PString ''+Infinity per token'') = PInf \<and>
   parsePrice (PString ''free'') = Fin 0"
  using parsePrice_numeric_prefix
    [of "[]" "\<lparr> lit_sign = [], int_digits = ''0'', fraction = Some ''5'', exponent = None \<rparr>"
        "'' per token''" "''+''" "''free''"]
    bounds_mid(2,3)
  by (simp add: well_formed_def is_sign_def mantissa_ok_def exponent_ok_def stops_def
      starts_exponent_def no_digit_ahead_def
      literal_text_def fraction_text_def exponent_text_def literal_value_def sign_factor_def
      mantissa_value_def exponent_value_def pow10_def digits_val_def is_digit_def is_space_def
      has_numeric_prefix_def strip_sign_def startsWith_def)

text \<open>
  The leading number of \<^verbatim>\<open>-1 per token\<close> is \<open>-1\<close>, and \<^verbatim>\<open>parsePrice\<close> returns 0, not
  that number; and the string \<^verbatim>\<open>0\<close> has a parseable numeric prefix and yields 0.
\<close>

theorem parsePrice_numeric_prefix_counterexample:
  "well_formed \<lparr> lit_sign = ''-'', int_digits = ''1'', fraction = None, exponent = None \<rparr> \<and>
   stops \<lparr> lit_sign = ''-'', int_digits = ''1'', fraction = None, exponent = None \<rparr>
     '' per token'' \<and>
   literal_text \<lparr> lit_sign = ''-'', int_digits = ''1'', fraction = None, exponent = None \<rparr>
     @ '' per token'' = ''-1 per token'' \<and>
   literal_value \<lparr> lit_sign = ''-'', int_digits = ''1'', fraction = None, exponent = None \<rparr>
     = - 1 \<and>
   parsePrice (PString ''-1 per token'') = Fin 0 \<and>
   has_numeric_prefix ''0'' \<and> parsePrice (PString ''0'') = Fin 0"
  by (simp add: well_formed_def is_sign_def mantissa_ok_def exponent_ok_def stops_def
      starts_exponent_def no_digit_ahead_def
      literal_text_def fraction_text_def exponent_text_def literal_value_def sign_factor_def
      mantissa_value_def exponent_value_def pow10_def digits_val_def is_digit_def is_space_def
      has_numeric_prefix_def strip_sign_def startsWith_def parsePrice_def parseFloat_def
      scan_unsigned_def scan_exponent_def signed_digits_def to_double_mid)

section \<open>View engine: auxiliary facts\<close>

subsection \<open>Insertion sort with a comparator\<close>

lemma set_insert_by: "set (insert_by cmp x ys) = insert x (set ys)"
  by (induction ys) auto

lemma mset_insert_by: "mset (insert_by cmp x ys) = add_mset x (mset ys)"
  by (induction ys) auto

lemma mset_Array_sort: "mset (Array_sort cmp xs) = mset xs"
  by (induction xs) (auto simp: Array_sort_def mset_insert_by)

lemma set_Array_sort: "set (Array_sort cmp xs) = set xs"
  by (induction xs) (auto simp: Array_sort_def set_insert_by)

lemma sorted_insert_by:
  assumes tot: "\<And>y. y \<in> set ys \<Longrightarrow> cmp x y \<le> 0 \<or> cmp y x \<le> 0"
    and tr: "\<And>y z. y \<in> set ys \<Longrightarrow> z \<in> set ys \<Longrightarrow> cmp x y \<le> 0 \<Longrightarrow> cmp y z \<le> 0 \<Longrightarrow> cmp x z \<le> 0"
    and srt: "sorted_wrt (\<lambda>a b. cmp a b \<le> 0) ys"
  shows "sorted_wrt (\<lambda>a b. cmp a b \<le> 0) (insert_by cmp x ys)"
  using assms
proof (induction ys)
  case Nil
  show ?case by simp
next
  case (Cons y ys)
  have tail: "sorted_wrt (\<lambda>a b. cmp a b \<le> 0) ys" and heads: "\<forall>z \<in> set ys. cmp y z \<le> 0"
    using Cons.prems(3) by simp_all
  show ?case
  proof (cases "cmp x y \<le> 0")
    case True
    have "cmp x z \<le> 0" if "z \<in> set ys" for z
    proof (rule Cons.prems(2)[of y z])
      show "y \<in> set (y # ys)" by simp
      show "z \<in> set (y # ys)" using that by simp
      show "cmp x y \<le> 0" by (rule True)
      show "cmp y z \<le> 0" using heads that by blast
    qed
    then show ?thesis using True Cons.prems(3) by simp
  next
    case False
    have yx: "cmp y x \<le> 0" using Cons.prems(1)[of y] False by simp
    have "sorted_wrt (\<lambda>a b. cmp a b \<le> 0) (insert_by cmp x ys)"
    proof (rule Cons.IH)
      show "cmp x z \<le> 0 \<or> cmp z x \<le> 0" if "z \<in> set ys" for z
        using Cons.prems(1)[of z] that by simp
      show "cmp x w \<le> 0" if "z \<in> set ys" "w \<in> set ys" "cmp x z \<le> 0" "cmp z w \<le> 0" for z w
        using Cons.prems(2)[of z w] that by simp
      show "sorted_wrt (\<lambda>a b. cmp a b \<le> 0) ys" by (rule tail)
    qed
    then show ?thesis using False yx heads by (simp add: set_insert_by)
  qed
qed

lemma sorted_Array_sort:
  assumes tot: "\<And>x y. cmp x y \<le> 0 \<or> cmp y x \<le> 0"
    and tr: "\<And>x y z. y \<in> set xs \<Longrightarrow> cmp x y \<le> 0 \<Longrightarrow> cmp y z \<le> 0 \<Longrightarrow> cmp x z \<le> 0"
  shows "sorted_wrt (\<lambda>a b. cmp a b \<le> 0) (Array_sort cmp xs)"
  using tr
proof (induction xs)
  case Nil
  show ?case by (simp add: Array_sort_def)
next
  case (Cons x xs)
  have IH: "sorted_wrt (\<lambda>a b. cmp a b \<le> 0) (Array_sort cmp xs)"
  proof (rule Cons.IH)
    show "cmp a c \<le> 0" if "b \<in> set xs" "cmp a b \<le> 0" "cmp b c \<le> 0" for a b c
      using Cons.prems[of b a c] that by simp
  qed
  have "sorted_wrt (\<lambda>a b. cmp a b \<le> 0) (insert_by cmp x (Array_sort cmp xs))"
  proof (rule sorted_insert_by)
    show "cmp x y \<le> 0 \<or> cmp y x \<le> 0" for y
      by (rule tot)
    show "cmp x z \<le> 0" if "y \<in> set (Array_sort cmp xs)" "cmp x y \<le> 0" "cmp y z \<le> 0" for y z
      using Cons.prems[of y x z] that by (simp add: set_Array_sort)
    show "sorted_wrt (\<lambda>a b. cmp a b \<le> 0) (Array_sort cmp xs)" by (rule IH)
  qed
  then show ?case by (simp add: Array_sort_def)
qed

lemma filter_insert_by:
  assumes "\<And>y. y \<in> set ys \<Longrightarrow> P x \<Longrightarrow> P y \<Longrightarrow> cmp x y \<le> 0"
  shows "filter P (insert_by cmp x ys) = (if P x then x # filter P ys else filter P ys)"
  using assms by (induction ys) auto

lemma filter_Array_sort:
  assumes "\<And>x y. P x \<Longrightarrow> P y \<Longrightarrow> cmp x y \<le> 0"
  shows "filter P (Array_sort cmp xs) = filter P xs"
proof (induction xs)
  case Nil
  show ?case by (simp add: Array_sort_def)
next
  case (Cons x xs)
  have "filter P (insert_by cmp x (Array_sort cmp xs)) =
        (if P x then x # filter P (Array_sort cmp xs) else filter P (Array_sort cmp xs))"
  proof (rule filter_insert_by)
    show "cmp x y \<le> 0" if "P x" "P y" for y using assms that by blast
  qed
  then show ?case using Cons.IH by (simp add: Array_sort_def)
qed

subsection \<open>The orders on field values\<close>

lemma js_less_asym: "js_less a b \<Longrightarrow> \<not> js_less b a"
  by (cases a; cases b) auto

lemma js_less_negtrans:
  "\<not> isNaN b \<Longrightarrow> \<not> js_less a b \<Longrightarrow> \<not> js_less b c \<Longrightarrow> \<not> js_less a c"
  by (cases a; cases b; cases c) auto

lemma str_less_irrefl: "\<not> str_less a a"
  by (induction a) auto

lemma str_less_asym: "str_less a b \<Longrightarrow> \<not> str_less b a"
  by (induction a b rule: str_less.induct) auto

lemma str_less_trans: "str_less a b \<Longrightarrow> str_less b c \<Longrightarrow> str_less a c"
proof (induction a b arbitrary: c rule: str_less.induct)
  case 1
  then show ?case by simp
next
  case (2 y ys)
  then show ?case by (cases c) simp_all
next
  case (3 x xs)
  then show ?case by simp
next
  case (4 x xs y ys)
  then show ?case by (cases c) auto
qed

lemma str_less_total: "\<not> str_less a b \<Longrightarrow> \<not> str_less b a \<Longrightarrow> a = b"
  by (induction a b rule: str_less.induct) (auto simp: not_less)

lemma str_less_negtrans:
  assumes "\<not> str_less a b" "\<not> str_less b c"
  shows "\<not> str_less a c"
proof
  assume ac: "str_less a c"
  show False
  proof (cases "str_less b a")
    case True
    then have "str_less b c" using ac str_less_trans by blast
    then show False using assms(2) by simp
  next
    case False
    then have "a = b" using assms(1) str_less_total by blast
    then show False using ac assms(2) by simp
  qed
qed

lemma val_less_asym:
  assumes "val_less f a b"
  shows "\<not> val_less f b a"
  using assms by (cases f) (simp_all add: val_less_def js_less_asym str_less_asym)

lemma val_less_negtrans:
  assumes "field_not_NaN f b" "\<not> val_less f a b" "\<not> val_less f b c"
  shows "\<not> val_less f a c"
proof (cases f)
  case Sort_name
  then show ?thesis using assms str_less_negtrans by (simp add: val_less_def)
next
  case Sort_provider
  then show ?thesis using assms str_less_negtrans by (simp add: val_less_def)
next
  case Sort_inputPrice
  then show ?thesis using assms js_less_negtrans
    by (simp add: val_less_def field_not_NaN_def)
next
  case Sort_outputPrice
  then show ?thesis using assms js_less_negtrans
    by (simp add: val_less_def field_not_NaN_def)
next
  case Sort_totalCost
  then show ?thesis using assms js_less_negtrans
    by (simp add: val_less_def field_not_NaN_def)
next
  case Sort_contextWindow
  then show ?thesis using assms js_less_negtrans
    by (simp add: val_less_def field_not_NaN_def)
qed

lemma out_of_order_asym: "out_of_order f ord a b \<Longrightarrow> \<not> out_of_order f ord b a"
  using val_less_asym[of f a b] val_less_asym[of f b a]
  by (cases ord) (simp_all add: out_of_order_def)

lemma out_of_order_negtrans:
  assumes "field_not_NaN f b" "\<not> out_of_order f ord a b" "\<not> out_of_order f ord b c"
  shows "\<not> out_of_order f ord a c"
proof (cases ord)
  case asc
  then show ?thesis using assms val_less_negtrans[of f b c a] by (simp add: out_of_order_def)
next
  case desc
  then show ?thesis using assms val_less_negtrans[of f b a c] by (simp add: out_of_order_def)
qed

lemma compareFn_le_iff:
  "compareFn sel f ord a b \<le> 0 \<longleftrightarrow>
     (model_id (model a) \<in> sel \<and> model_id (model b) \<notin> sel) \<or>
     ((model_id (model a) \<in> sel \<longleftrightarrow> model_id (model b) \<in> sel) \<and> \<not> out_of_order f ord a b)"
  using val_less_asym[of f a b]
  by (cases ord) (auto simp: compareFn_def out_of_order_def Let_def)

lemma compareFn_eq_iff:
  "compareFn sel f ord a b = 0 \<longleftrightarrow>
     (model_id (model a) \<in> sel \<longleftrightarrow> model_id (model b) \<in> sel) \<and>
     \<not> val_less f a b \<and> \<not> val_less f b a"
  by (cases ord) (auto simp: compareFn_def Let_def)

lemma compareFn_total: "compareFn sel f ord a b \<le> 0 \<or> compareFn sel f ord b a \<le> 0"
  using out_of_order_asym[of f ord a b] by (auto simp: compareFn_le_iff)

lemma compareFn_trans:
  assumes "field_not_NaN f b" "compareFn sel f ord a b \<le> 0" "compareFn sel f ord b c \<le> 0"
  shows "compareFn sel f ord a c \<le> 0"
  using assms out_of_order_negtrans[of f b ord a c]
  by (auto simp: compareFn_le_iff)

lemma compareFn_equal_le:
  assumes "field_not_NaN f a" "compareFn sel f ord a x = 0" "compareFn sel f ord a y = 0"
  shows "compareFn sel f ord x y \<le> 0"
proof -
  have "\<not> val_less f x y \<and> \<not> val_less f y x"
    using assms val_less_negtrans[of f a x y] val_less_negtrans[of f a y x]
    by (auto simp: compareFn_eq_iff)
  then show ?thesis using assms by (auto simp: compareFn_le_iff compareFn_eq_iff out_of_order_def)
qed

subsection \<open>Sample data\<close>

lemmas eval_defs = allCosts_def priced_entry_def normalizeModel_def pricing_prompt_def
  pricing_completion_def parsePrice_def or_zero_def calculateModelCost_def guessProvider_def
  startsWith_def toLowerCase_def toLowerChar_def toUpperChar_def capitalize_def
  parseFloat_def scan_unsigned_def is_space_def is_digit_def
  digits_val_def pow10_def scan_exponent_def signed_digits_def Let_def to_double_mid

lemma demo_costs_eq:
  "demo_costs =
     [\<lparr> model = \<lparr> model_id = ''openai/gpt-4o'', model_name = ''openai/gpt-4o'',
                  provider = ''OpenAI'', inputPricePerMillion = Fin 2,
                  outputPricePerMillion = Fin 4, contextWindow = Fin 0 \<rparr>,
        inputCost = Fin 2, outputCost = Fin 0, totalCost = Fin 2 \<rparr>,
      \<lparr> model = \<lparr> model_id = ''anthropic/claude-3'', model_name = ''anthropic/claude-3'',
                  provider = ''Anthropic'', inputPricePerMillion = Fin 1,
                  outputPricePerMillion = Fin 5, contextWindow = Fin 0 \<rparr>,
        inputCost = Fin 1, outputCost = Fin 0, totalCost = Fin 1 \<rparr>]"
  by (simp add: demo_costs_def demo_catalog_def eval_defs)

lemma nan_costs_eq:
  "nan_costs =
     [\<lparr> model = \<lparr> model_id = ''acme/x'', model_name = ''acme/x'',
                  provider = ''Acme'', inputPricePerMillion = Fin 2,
                  outputPricePerMillion = Fin 0, contextWindow = Fin 0 \<rparr>,
        inputCost = Fin 2, outputCost = Fin 0, totalCost = Fin 2 \<rparr>,
      \<lparr> model = \<lparr> model_id = ''acme/y'', model_name = ''acme/y'',
                  provider = ''Acme'', inputPricePerMillion = Fin 0,
                  outputPricePerMillion = PInf, contextWindow = Fin 0 \<rparr>,
        inputCost = Fin 0, outputCost = NaN, totalCost = NaN \<rparr>,
      \<lparr> model = \<lparr> model_id = ''acme/z'', model_name = ''acme/z'',
                  provider = ''Acme'', inputPricePerMillion = Fin 1,
                  outputPricePerMillion = Fin 0, contextWindow = Fin 0 \<rparr>,
        inputCost = Fin 1, outputCost = Fin 0, totalCost = Fin 1 \<rparr>]"
  by (simp add: nan_costs_def nan_catalog_def eval_defs)

lemma abc_costs_eq:
  "abc_costs =
     [\<lparr> model = \<lparr> model_id = ''acme/a'', model_name = ''acme/a'',
                  provider = ''Acme'', inputPricePerMillion = Fin 5,
                  outputPricePerMillion = Fin 0, contextWindow = Fin 0 \<rparr>,
        inputCost = Fin 5, outputCost = Fin 0, totalCost = Fin 5 \<rparr>,
      \<lparr> model = \<lparr> model_id = ''acme/b'', model_name = ''acme/b'',
                  provider = ''Acme'', inputPricePerMillion = Fin 1,
                  outputPricePerMillion = Fin 0, contextWindow = Fin 0 \<rparr>,
        inputCost = Fin 1, outputCost = Fin 0, totalCost = Fin 1 \<rparr>,
      \<lparr> model = \<lparr> model_id = ''acme/c'', model_name = ''acme/c'',
                  provider = ''Acme'', inputPricePerMillion = Fin 5,
                  outputPricePerMillion = Fin 0, contextWindow = Fin 0 \<rparr>,
        inputCost = Fin 5, outputCost = Fin 0, totalCost = Fin 5 \<rparr>]"
  by (simp add: abc_costs_def abc_catalog_def eval_defs)

lemma abc_sorted:
  "map (\<lambda>d. model_id (model d)) (Array_sort (compareFn {''acme/a''} Sort_totalCost asc) abc_costs)
     = [''acme/a'', ''acme/b'', ''acme/c'']"
  by (simp add: abc_costs_eq Array_sort_def compareFn_def val_less_def)

subsection \<open>Records that no order arranges\<close>

lemma three_len:
  assumes "mset ys = mset [a, b, c]"
  shows "\<exists>p q r. ys = [p, q, r]"
proof -
  have "size (mset ys) = size (mset [a, b, c])" using assms by simp
  then have "length ys = Suc (Suc (Suc 0))" by simp
  then show ?thesis by (auto simp: length_Suc_conv)
qed

lemma three_perm:
  assumes d: "distinct [a, b, c]" and m: "mset ys = mset [a, b, c]"
  shows "ys \<in> {[a,b,c],[a,c,b],[b,a,c],[b,c,a],[c,a,b],[c,b,a]}"
proof -
  obtain p q r where ys: "ys = [p, q, r]" using three_len[OF m] by blast
  have dy: "distinct ys" using d m by (metis mset_eq_imp_distinct_iff)
  have sy: "set ys = set [a, b, c]" using m by (rule mset_eq_setD)
  have "p \<in> {a, b, c}" "q \<in> {a, b, c}" "r \<in> {a, b, c}"
    using sy ys by auto
  moreover have "p \<noteq> q" "p \<noteq> r" "q \<noteq> r" using dy ys by auto
  ultimately show ?thesis unfolding ys by auto
qed

lemma nan_costs_unarrangeable:
  "\<not> arranged {} Sort_totalCost asc nan_costs out"
proof
  assume a: "arranged {} Sort_totalCost asc nan_costs out"
  have "size (mset out) = size (mset nan_costs)" using a by (simp add: arranged_def)
  then have len: "length out = 3" by (simp add: nan_costs_eq)
  have ord: "\<not> out_of_order Sort_totalCost asc (out ! i) (out ! j)" if "i < j" "j < 3" for i j
    using a that len by (simp add: arranged_def)
  have st: "filter (\<lambda>b. compareFn {} Sort_totalCost asc d b = 0) out =
            filter (\<lambda>b. compareFn {} Sort_totalCost asc d b = 0) nan_costs"
    if "d \<in> set nan_costs" for d
    using a that by (simp add: arranged_def)
  have "mset out = mset [nan_costs ! 0, nan_costs ! 1, nan_costs ! 2]"
    using a by (simp add: arranged_def nan_costs_eq)
  then have "out \<in> {[nan_costs!0,nan_costs!1,nan_costs!2],[nan_costs!0,nan_costs!2,nan_costs!1],
     [nan_costs!1,nan_costs!0,nan_costs!2],[nan_costs!1,nan_costs!2,nan_costs!0],
     [nan_costs!2,nan_costs!0,nan_costs!1],[nan_costs!2,nan_costs!1,nan_costs!0]}"
    by (rule three_perm[rotated]) (simp add: nan_costs_eq)
  then consider
      "out = [nan_costs!0,nan_costs!1,nan_costs!2]" | "out = [nan_costs!0,nan_costs!2,nan_costs!1]"
    | "out = [nan_costs!1,nan_costs!0,nan_costs!2]" | "out = [nan_costs!1,nan_costs!2,nan_costs!0]"
    | "out = [nan_costs!2,nan_costs!0,nan_costs!1]" | "out = [nan_costs!2,nan_costs!1,nan_costs!0]"
    by blast
  then show False
  proof cases
    case 1
    then show False using ord[of 0 2]
      by (simp add: nan_costs_eq out_of_order_def val_less_def)
  next
    case 2
    then show False using ord[of 0 1]
      by (simp add: nan_costs_eq out_of_order_def val_less_def)
  next
    case 3
    then show False using ord[of 1 2]
      by (simp add: nan_costs_eq out_of_order_def val_less_def)
  next
    case 4
    then show False using st[of "nan_costs ! 0"]
      by (simp add: nan_costs_eq compareFn_def val_less_def)
  next
    case 5
    then show False using st[of "nan_costs ! 2"]
      by (simp add: nan_costs_eq compareFn_def val_less_def)
  next
    case 6
    then show False using st[of "nan_costs ! 0"]
      by (simp add: nan_costs_eq compareFn_def val_less_def)
  qed
qed

section \<open>View engine: verified properties\<close>

text \<open>
  Claim C2, as amended.  When the selection set is empty, the chart view consists of the
  first 15 cost-positive entries of the table view, in the order of the table view (the sort
  field and direction the table currently has, ascending total cost by default): at most 15
  records, every one of which has a total cost above 0.
\<close>

theorem default_chart_view:
  "chartView costs prov search sf ord {} rate =
     map (chartPoint rate)
       (take 15 (filter (\<lambda>d. js_less (Fin 0) (totalCost d))
                   (tableData costs prov search sf ord {}))) \<and>
   length (chartView costs prov search sf ord {} rate) \<le> 15 \<and>
   (\<forall>d \<in> set (take 15 (filter (\<lambda>d. js_less (Fin 0) (totalCost d))
                            (tableData costs prov search sf ord {}))).
      js_less (Fin 0) (totalCost d))"
proof (intro conjI ballI)
  show eq: "chartView costs prov search sf ord {} rate =
     map (chartPoint rate)
       (take 15 (filter (\<lambda>d. js_less (Fin 0) (totalCost d))
                   (tableData costs prov search sf ord {})))"
    by (simp add: chartView_def chartData_def isSelectionMode_def CostChart_def)
  show "length (chartView costs prov search sf ord {} rate) \<le> 15"
    by (simp add: eq)
  fix d
  assume "d \<in> set (take 15 (filter (\<lambda>d. js_less (Fin 0) (totalCost d))
                            (tableData costs prov search sf ord {})))"
  then have "d \<in> set (filter (\<lambda>d. js_less (Fin 0) (totalCost d))
                            (tableData costs prov search sf ord {}))"
    by (rule in_set_takeD)
  then show "js_less (Fin 0) (totalCost d)" by simp
qed

theorem default_chart_view_witness:
  "map fullName (chartView demo_costs ''All'' [] Sort_totalCost asc {} (Fin 1))
     = [''anthropic/claude-3'', ''openai/gpt-4o''] \<and>
   length (chartView demo_costs ''All'' [] Sort_totalCost asc {} (Fin 1)) \<le> 15"
  using default_chart_view [of demo_costs "''All''" "[]" Sort_totalCost asc "Fin 1"]
  by (simp add: demo_costs_eq tableData_def Array_sort_def compareFn_def val_less_def
      chartPoint_def)

text \<open>
  With the default sort, ascending total cost, the chart lists the cheaper record first: the
  chart view is not sorted by descending total cost.
\<close>

theorem default_chart_view_counterexample:
  "map point_total (chartView demo_costs ''All'' [] Sort_totalCost asc {} (Fin 1))
     = [Fin 1, Fin 2] \<and> js_less (Fin 1) (Fin 2)"
  by (simp add: demo_costs_eq chartView_def chartData_def isSelectionMode_def CostChart_def
      tableData_def Array_sort_def compareFn_def val_less_def chartPoint_def to_double_mid)

text \<open>
  Claim C3.  When the selection set is not empty, the chart view contains exactly the cost
  records of the full cost-annotated set whose model id is in the selection set, in the order
  of that set: the provider filter, the search and the sort of the table play no part, free
  records are kept, and the number of records is not capped.
\<close>

theorem selection_chart_view:
  "sel \<noteq> {} \<Longrightarrow>
   chartView costs prov search sf ord sel rate =
     map (chartPoint rate) (filter (\<lambda>d. model_id (model d) \<in> sel) costs)"
  by (simp add: chartView_def chartData_def isSelectionMode_def CostChart_def)

theorem selection_chart_view_witness:
  "{''anthropic/claude-3''} \<noteq> ({} :: string set) \<and>
   map fullName
     (chartView demo_costs ''OpenAI'' [] Sort_totalCost asc {''anthropic/claude-3''} (Fin 1))
     = [''anthropic/claude-3'']"
  using selection_chart_view
    [of "{''anthropic/claude-3''}" demo_costs "''OpenAI''" "[]" Sort_totalCost asc "Fin 1"]
  by (simp add: demo_costs_eq chartPoint_def)

text \<open>
  Claim C4, as amended.  For every input list of cost records in which no value of the
  requested sort field is NaN, every selection set, every sort field and either direction,
  the table sort returns a permutation of its input that places all records with selected
  ids before all records with unselected ids; within each of the two groups no record stands
  before one that belongs strictly before it in the requested order of the field (strings
  compared lexicographically, numbers numerically, ascending or descending); and the records
  that compare equal to any given record keep their relative order from the input.
\<close>

theorem table_sort_pinned_ordered_stable:
  assumes nn: "\<forall>d \<in> set data. field_not_NaN sortField d"
  shows "arranged sel sortField sortOrder data
           (Array_sort (compareFn sel sortField sortOrder) data)"
proof -
  let ?cmp = "compareFn sel sortField sortOrder"
  let ?out = "Array_sort ?cmp data"
  have len: "length ?out = length data"
    by (metis mset_Array_sort size_mset)
  have srt: "sorted_wrt (\<lambda>a b. ?cmp a b \<le> 0) ?out"
  proof (rule sorted_Array_sort)
    show "?cmp x y \<le> 0 \<or> ?cmp y x \<le> 0" for x y by (rule compareFn_total)
    show "?cmp x z \<le> 0" if "y \<in> set data" "?cmp x y \<le> 0" "?cmp y z \<le> 0" for x y z
    proof (rule compareFn_trans[of sortField y])
      show "field_not_NaN sortField y" using nn that(1) by blast
    qed (use that in simp_all)
  qed
  have le: "?cmp (?out ! i) (?out ! j) \<le> 0" if "i < j" "j < length data" for i j
    using srt that len by (simp add: sorted_wrt_iff_nth_less)
  have pinned: "model_id (model (?out ! i)) \<in> sel"
    if "i < j" "j < length data" "model_id (model (?out ! j)) \<in> sel" for i j
    using le[OF that(1,2)] that(3) by (auto simp: compareFn_le_iff)
  have ordered: "\<not> out_of_order sortField sortOrder (?out ! i) (?out ! j)"
    if "i < j" "j < length data"
      "model_id (model (?out ! i)) \<in> sel \<longleftrightarrow> model_id (model (?out ! j)) \<in> sel" for i j
    using le[OF that(1,2)] that(3) by (auto simp: compareFn_le_iff)
  have stable: "filter (\<lambda>b. ?cmp a b = 0) ?out = filter (\<lambda>b. ?cmp a b = 0) data"
    if "a \<in> set data" for a
  proof (rule filter_Array_sort)
    show "?cmp x y \<le> 0" if "?cmp a x = 0" "?cmp a y = 0" for x y
    proof (rule compareFn_equal_le[of sortField a])
      show "field_not_NaN sortField a" using nn \<open>a \<in> set data\<close> by blast
    qed (use that in simp_all)
  qed
  have "mset ?out = mset data" by (rule mset_Array_sort)
  moreover have "\<forall>i j. i < j \<and> j < length ?out \<and> model_id (model (?out ! j)) \<in> sel
        \<longrightarrow> model_id (model (?out ! i)) \<in> sel"
    using pinned unfolding len by blast
  moreover have "\<forall>i j. i < j \<and> j < length ?out \<and>
        (model_id (model (?out ! i)) \<in> sel \<longleftrightarrow> model_id (model (?out ! j)) \<in> sel)
        \<longrightarrow> \<not> out_of_order sortField sortOrder (?out ! i) (?out ! j)"
    using ordered unfolding len by blast
  moreover have "\<forall>a \<in> set data. filter (\<lambda>b. ?cmp a b = 0) ?out = filter (\<lambda>b. ?cmp a b = 0) data"
    using stable by blast
  ultimately show ?thesis unfolding arranged_def by (intro conjI)
qed

theorem table_sort_pinned_ordered_stable_witness:
  "list_all (field_not_NaN Sort_totalCost) abc_costs \<and>
   arranged {''acme/a''} Sort_totalCost asc abc_costs
     (Array_sort (compareFn {''acme/a''} Sort_totalCost asc) abc_costs) \<and>
   map (\<lambda>d. model_id (model d))
     (Array_sort (compareFn {''acme/a''} Sort_totalCost asc) abc_costs)
     = [''acme/a'', ''acme/b'', ''acme/c'']"
proof -
  have nn: "\<forall>d \<in> set abc_costs. field_not_NaN Sort_totalCost d"
    by (simp add: abc_costs_eq field_not_NaN_def)
  then have "list_all (field_not_NaN Sort_totalCost) abc_costs"
    by (simp add: list_all_iff)
  then show ?thesis
    using table_sort_pinned_ordered_stable [OF nn, of "{''acme/a''}" asc] abc_sorted
    by simp
qed

text \<open>
  With one million input tokens and no output tokens, the entry whose completion price is the
  text \<^verbatim>\<open>Infinity\<close> gets the total cost \<open>0 * Infinity\<close>, which is NaN.  Every
  comparison with NaN is false, so the comparator returns 0 for this record against both
  others, and the table sorted by ascending total cost keeps the record of total cost 2 before
  the record of total cost 1.  No other arrangement would do either: by
  \<open>nan_costs_unarrangeable\<close> these three records cannot be put in any order that is both
  ascending and stable, so the failure does not depend on the sorting algorithm.
\<close>

theorem table_sort_counterexample:
  "map totalCost (tableData nan_costs ''All'' [] Sort_totalCost asc {}) = [Fin 2, NaN, Fin 1] \<and>
   \<not> arranged {} Sort_totalCost asc nan_costs
       (tableData nan_costs ''All'' [] Sort_totalCost asc {})"
proof -
  have "map totalCost (tableData nan_costs ''All'' [] Sort_totalCost asc {})
          = [Fin 2, NaN, Fin 1]"
    by (simp add: nan_costs_eq tableData_def Array_sort_def compareFn_def val_less_def)
  then show ?thesis using nan_costs_unarrangeable by simp
qed

section \<open>Pricing cache gateway: auxiliary facts\<close>

lemma those_map_Some: "those (map Some xs) = Some xs"
  by (induction xs) simp_all

lemma those_None: "those xs = None \<longleftrightarrow> None \<in> set xs"
  by (induction xs) (auto split: option.splits)

lemma try_block_attempt: "attempt (outcome e) = Inl err \<Longrightarrow> try_block e = Inl err"
  by (simp add: try_block_def)

lemma try_block_fails:
  "isl (try_block e) \<longleftrightarrow>
     (case attempt (outcome e) of
        Inl err \<Rightarrow> True
      | Inr rawModels \<Rightarrow> None \<in> set rawModels \<or> \<not> storage_writable e)"
  by (auto simp: try_block_def normalizeAll_def those_None[symmetric]
      split: sum.splits option.splits)

lemma try_block_online:
  "try_block (online t rawModels) = Inr (map normalizeModel rawModels)"
  by (simp add: try_block_def online_def attempt_def normalizeAll_def those_map_Some)

lemma try_block_storage_full:
  "try_block (storage_full t rawModels) = Inl QuotaExceededError"
  by (simp add: try_block_def storage_full_def online_def attempt_def normalizeAll_def
      those_map_Some)

lemma try_block_offline: "try_block (offline t) = Inl NetworkFailure"
  by (simp add: try_block_def offline_def attempt_def)

lemma fetchModels_unreadable:
  "\<not> storage_readable e \<Longrightarrow> fetchModels e w = (Inl SecurityError, w)"
  by (simp add: fetchModels_def)

lemma fetchModels_failure:
  assumes "storage_readable e" "try_block e = Inl err"
  shows "fst (fetchModels e w) =
           (case cached_models (storage w) of Some ms \<Rightarrow> Inr ms | None \<Rightarrow> Inl err)"
  using assms
  by (auto simp: fetchModels_def cached_models_def truthy_def Let_def
      split: option.splits stored_text.splits parsed_json.splits)

lemma fetchModels_success:
  assumes "storage_readable e" "try_block e = Inr ms"
  shows "\<not> isl (fst (fetchModels e w))"
  using assms
  by (auto simp: fetchModels_def truthy_def Let_def
      split: option.splits stored_text.splits parsed_json.splits)

lemma fetchModels_fetched:
  assumes rd: "storage_readable e" and ok: "try_block e = Inr ms"
    and req: "requests (snd (fetchModels e w)) = requests w + 1"
  shows "fetchModels e w =
     (Inr (Some (in_memory ms)),
      \<lparr> storage = Some (Text (JObject (Some (Fin (now_write e))) (Some (JSON_roundtrip ms)))),
        requests = requests w + 1 \<rparr>)"
  using assms
  by (auto simp: fetchModels_def Let_def
      split: option.splits stored_text.splits parsed_json.splits if_splits)

lemma js_less_age: "x < CACHE_DURATION \<Longrightarrow> js_less (to_double x) (Fin CACHE_DURATION)"
  using bounds_mid(2)
  by (auto simp: to_double_def CACHE_DURATION_def)

lemma fetchModels_fresh:
  assumes "storage_readable e" "storage w = Some (Text (JObject (Some (Fin t0)) ms))"
    "t - t0 < CACHE_DURATION" "now_check e = t"
  shows "fetchModels e w = (Inr ms, w)"
  using assms by (simp add: fetchModels_def truthy_def js_minus_def ToNumber_def js_less_age)

lemma json_number_finite: "is_finite n \<Longrightarrow> json_number n = Some n"
  by (cases n) (simp_all add: json_number_def)

lemma JSON_roundtrip_finite:
  "list_all all_finite ms \<Longrightarrow> JSON_roundtrip ms = in_memory ms"
  by (induction ms)
    (simp_all add: JSON_roundtrip_def in_memory_def map_numbers_def all_finite_def
      json_number_finite)

lemma demo_catalog_finite: "list_all all_finite (map normalizeModel demo_catalog)"
  by (simp add: demo_catalog_def all_finite_def eval_defs)

lemma fetch_demo:
  "fetchModels (online 0 demo_catalog) empty_world =
     (Inr (Some (in_memory (map normalizeModel demo_catalog))),
      \<lparr> storage = Some (Text (JObject (Some (Fin 0))
                          (Some (JSON_roundtrip (map normalizeModel demo_catalog))))),
        requests = 1 \<rparr>)"
  by (simp add: fetchModels_def try_block_online truthy_def empty_world_def)
    (simp add: online_def)

text \<open>
  A price text within the range of doubles whose price per million is beyond it: the
  normalized price is +Infinity, which is not finite.
\<close>

lemma overflow_price:
  "inputPricePerMillion (normalizeModel (priced_entry ''acme/big'' (PString ''1e305'') (PString ''0'')))
     = PInf"
  by (simp add: eval_defs to_double_in_range to_double_overflow)

section \<open>Pricing cache gateway: verified properties\<close>

text \<open>
  Claim C1, as amended.  \<^verbatim>\<open>fetchModels\<close> fails if and only if the local storage cannot be
  read, or the refresh fails and the cache holds no text that parses to a value other than
  \<^verbatim>\<open>null\<close>; the refresh fails when the request, the status check, the parsing of the body or
  the validation of its shape fails, when the normalizer throws on an entry, or when the
  write of the new cache entry throws.  For every load attempt that reads the storage and
  whose refresh fails, in particular where the network fetch or the response validation
  fails: if a cache entry exists whose text parses to a value other than \<^verbatim>\<open>null\<close>, fresh or
  expired, the call returns the \<^verbatim>\<open>models\<close> member of that value and does not throw;
  otherwise (no entry, an empty or unparseable text, or the text \<^verbatim>\<open>null\<close>) the failure of
  the refresh is propagated to the caller.
\<close>

theorem fetchModels_failure_fallback:
  "(storage_readable e \<and> try_block e = Inl err \<longrightarrow>
      fst (fetchModels e w) =
        (case cached_models (storage w) of Some ms \<Rightarrow> Inr ms | None \<Rightarrow> Inl err)) \<and>
   (attempt (outcome e) = Inl err \<longrightarrow> try_block e = Inl err) \<and>
   (isl (try_block e) \<longleftrightarrow>
      (case attempt (outcome e) of
         Inl err \<Rightarrow> True
       | Inr rawModels \<Rightarrow> None \<in> set rawModels \<or> \<not> storage_writable e)) \<and>
   (isl (fst (fetchModels e w)) \<longleftrightarrow>
      \<not> storage_readable e \<or> (isl (try_block e) \<and> cached_models (storage w) = None))"
proof (intro conjI impI)
  assume "storage_readable e \<and> try_block e = Inl err"
  then show "fst (fetchModels e w) =
        (case cached_models (storage w) of Some ms \<Rightarrow> Inr ms | None \<Rightarrow> Inl err)"
    by (simp add: fetchModels_failure)
next
  assume "attempt (outcome e) = Inl err"
  then show "try_block e = Inl err" by (rule try_block_attempt)
next
  show "isl (try_block e) \<longleftrightarrow>
      (case attempt (outcome e) of
         Inl err \<Rightarrow> True
       | Inr rawModels \<Rightarrow> None \<in> set rawModels \<or> \<not> storage_writable e)"
    by (rule try_block_fails)
next
  show "isl (fst (fetchModels e w)) \<longleftrightarrow>
      \<not> storage_readable e \<or> (isl (try_block e) \<and> cached_models (storage w) = None)"
  proof (cases "storage_readable e")
    case False
    then show ?thesis by (simp add: fetchModels_unreadable)
  next
    case True
    show ?thesis
    proof (cases "try_block e")
      case (Inl err)
      then show ?thesis using True
        by (simp add: fetchModels_failure split: option.splits)
    next
      case (Inr ms)
      then show ?thesis using True
        by (simp add: fetchModels_success)
    qed
  qed
qed

theorem fetchModels_failure_fallback_witness:
  "storage_readable (offline 7200000) \<and>
   attempt (outcome (offline 7200000)) = Inl NetworkFailure \<and>
   try_block (offline 7200000) = Inl NetworkFailure \<and>
   fst (fetchModels (offline 7200000) stale_world)
     = Inr (Some (JSON_roundtrip (map normalizeModel demo_catalog))) \<and>
   fst (fetchModels (offline 7200000) empty_world) = Inl NetworkFailure"
  using fetchModels_failure_fallback [of "offline 7200000" NetworkFailure stale_world]
    fetchModels_failure_fallback [of "offline 7200000" NetworkFailure empty_world]
  by (simp add: offline_def attempt_def stale_world_def empty_world_def cached_models_def)

text \<open>
  The text \<^verbatim>\<open>null\<close> is parseable JSON, but reading \<^verbatim>\<open>.models\<close> of the parsed value throws
  inside the inner \<^verbatim>\<open>try\<close>, whose handler ignores it: the failure of the fetch is thrown.
  And a call fails although the remote fetch succeeds, when the write of the cache entry
  throws and there is no cache entry to fall back on.
\<close>

theorem fetchModels_failure_fallback_counterexample:
  "parseable (storage null_world) \<and>
   attempt (outcome (offline 0)) = Inl NetworkFailure \<and>
   fst (fetchModels (offline 0) null_world) = Inl NetworkFailure \<and>
   attempt (outcome (storage_full 0 demo_catalog)) = Inr (map Some demo_catalog) \<and>
   fst (fetchModels (storage_full 0 demo_catalog) empty_world) = Inl QuotaExceededError"
proof -
  have "fst (fetchModels (offline 0) null_world) = Inl NetworkFailure"
    by (simp add: fetchModels_def try_block_offline null_world_def truthy_def)
      (simp add: offline_def)
  moreover have "fst (fetchModels (storage_full 0 demo_catalog) empty_world) = Inl QuotaExceededError"
    by (simp add: fetchModels_def try_block_storage_full empty_world_def truthy_def)
      (simp add: storage_full_def online_def)
  ultimately show ?thesis
    by (simp add: parseable_def null_world_def offline_def storage_full_def online_def attempt_def)
qed

text \<open>
  Claim C5, as amended.  If a cache entry was written by a successful refresh and
  \<^verbatim>\<open>fetchModels\<close> is called again while the age of the entry is strictly less than one hour
  and the local storage can be read, the call returns the model sequence as it was serialised
  into the entry, whatever the network would answer, and leaves the stored text and the number
  of requests sent unchanged: no network fetch is performed.  The sequence is identical to the
  one the writing call returned whenever all prices and context windows in it are finite.
\<close>

theorem cache_roundtrip:
  assumes rd: "storage_readable e1 \<and> storage_readable e2"
    and ok: "try_block e1 = Inr ms"
    and req: "requests (snd (fetchModels e1 w)) = requests w + 1"
    and age: "now_check e2 - now_write e1 < CACHE_DURATION"
  shows "fetchModels e2 (snd (fetchModels e1 w)) =
           (Inr (Some (JSON_roundtrip ms)), snd (fetchModels e1 w)) \<and>
         (list_all all_finite ms \<longrightarrow>
            fst (fetchModels e2 (snd (fetchModels e1 w))) = fst (fetchModels e1 w))"
proof -
  let ?w1 = "\<lparr> storage = Some (Text (JObject (Some (Fin (now_write e1)))
                                (Some (JSON_roundtrip ms)))),
              requests = requests w + 1 \<rparr>"
  have rd1: "storage_readable e1" and rd2: "storage_readable e2" using rd by simp_all
  have first: "fetchModels e1 w = (Inr (Some (in_memory ms)), ?w1)"
    by (rule fetchModels_fetched[OF rd1 ok req])
  have second: "fetchModels e2 ?w1 = (Inr (Some (JSON_roundtrip ms)), ?w1)"
    by (rule fetchModels_fresh[of _ _ "now_write e1" _ "now_check e2"]) (use age rd2 in simp_all)
  have a: "fetchModels e2 (snd (fetchModels e1 w)) =
           (Inr (Some (JSON_roundtrip ms)), snd (fetchModels e1 w))"
    using second by (simp add: first)
  have b: "fst (fetchModels e2 (snd (fetchModels e1 w))) = fst (fetchModels e1 w)"
    if "list_all all_finite ms"
  proof -
    have "JSON_roundtrip ms = in_memory ms" using that by (rule JSON_roundtrip_finite)
    moreover have "fst (fetchModels e2 (snd (fetchModels e1 w))) = Inr (Some (JSON_roundtrip ms))"
      by (simp add: a)
    moreover have "fst (fetchModels e1 w) = Inr (Some (in_memory ms))"
      by (simp add: first)
    ultimately show ?thesis by simp
  qed
  show ?thesis using a b by blast
qed

theorem cache_roundtrip_witness:
  "storage_readable (online 0 demo_catalog) \<and> storage_readable (offline 1000) \<and>
   try_block (online 0 demo_catalog) = Inr (map normalizeModel demo_catalog) \<and>
   requests (snd (fetchModels (online 0 demo_catalog) empty_world)) = requests empty_world + 1 \<and>
   now_check (offline 1000) - now_write (online 0 demo_catalog) < CACHE_DURATION \<and>
   list_all all_finite (map normalizeModel demo_catalog) \<and>
   fst (fetchModels (offline 1000) (snd (fetchModels (online 0 demo_catalog) empty_world)))
     = fst (fetchModels (online 0 demo_catalog) empty_world) \<and>
   requests (snd (fetchModels (offline 1000)
       (snd (fetchModels (online 0 demo_catalog) empty_world)))) = 1"
proof -
  have rd: "storage_readable (online 0 demo_catalog) \<and> storage_readable (offline 1000)"
    by (simp add: online_def offline_def)
  have ok: "try_block (online 0 demo_catalog) = Inr (map normalizeModel demo_catalog)"
    by (rule try_block_online)
  have req: "requests (snd (fetchModels (online 0 demo_catalog) empty_world))
               = requests empty_world + 1"
    using fetch_demo by (simp add: empty_world_def)
  have age: "now_check (offline 1000) - now_write (online 0 demo_catalog) < CACHE_DURATION"
    by (simp add: offline_def online_def CACHE_DURATION_def)
  have same: "fst (fetchModels (offline 1000)
                 (snd (fetchModels (online 0 demo_catalog) empty_world)))
               = fst (fetchModels (online 0 demo_catalog) empty_world)"
    using cache_roundtrip [OF rd ok req age] demo_catalog_finite by blast
  have "snd (fetchModels (offline 1000) (snd (fetchModels (online 0 demo_catalog) empty_world)))
          = snd (fetchModels (online 0 demo_catalog) empty_world)"
    using cache_roundtrip [OF rd ok req age] by simp
  then have quiet: "requests (snd (fetchModels (offline 1000)
       (snd (fetchModels (online 0 demo_catalog) empty_world)))) = 1"
    using req by (simp add: empty_world_def)
  have rd1: "storage_readable (online 0 demo_catalog)" and rd2: "storage_readable (offline 1000)"
    using rd by simp_all
  show ?thesis
    using rd1 rd2 ok req age demo_catalog_finite same quiet by (intro conjI)
qed

text \<open>
  A completion price given as the text \<^verbatim>\<open>Infinity\<close> is normalized to +Infinity, which
  \<^verbatim>\<open>JSON.stringify\<close> writes as \<^verbatim>\<open>null\<close>: the sequence read back from the fresh cache differs
  from the one that was handed to the cache.
\<close>

theorem cache_roundtrip_counterexample:
  "requests (snd (fetchModels (online 0 inf_catalog) empty_world)) = 1 \<and>
   fst (fetchModels (online 0 inf_catalog) empty_world) =
     Inr (Some [\<lparr> model_id = ''acme/y'', model_name = ''acme/y'', provider = ''Acme'',
                   inputPricePerMillion = Some (Fin 0), outputPricePerMillion = Some PInf,
                   contextWindow = Some (Fin 0) \<rparr>]) \<and>
   fetchModels (offline 1000) (snd (fetchModels (online 0 inf_catalog) empty_world)) =
     (Inr (Some [\<lparr> model_id = ''acme/y'', model_name = ''acme/y'', provider = ''Acme'',
                   inputPricePerMillion = Some (Fin 0), outputPricePerMillion = None,
                   contextWindow = Some (Fin 0) \<rparr>]),
      snd (fetchModels (online 0 inf_catalog) empty_world))"
proof -
  have norm: "map normalizeModel inf_catalog =
      [\<lparr> model_id = ''acme/y'', model_name = ''acme/y'', provider = ''Acme'',
         inputPricePerMillion = Fin 0, outputPricePerMillion = PInf, contextWindow = Fin 0 \<rparr>]"
    by (simp add: inf_catalog_def eval_defs)
  have first: "fetchModels (online 0 inf_catalog) empty_world =
     (Inr (Some (in_memory (map normalizeModel inf_catalog))),
      \<lparr> storage = Some (Text (JObject (Some (Fin 0))
                          (Some (JSON_roundtrip (map normalizeModel inf_catalog))))),
        requests = 1 \<rparr>)"
    by (simp add: fetchModels_def try_block_online truthy_def empty_world_def)
      (simp add: online_def)
  have second: "fetchModels (offline 1000)
       \<lparr> storage = Some (Text (JObject (Some (Fin 0))
                          (Some (JSON_roundtrip (map normalizeModel inf_catalog))))),
         requests = 1 \<rparr> =
     (Inr (Some (JSON_roundtrip (map normalizeModel inf_catalog))),
      \<lparr> storage = Some (Text (JObject (Some (Fin 0))
                          (Some (JSON_roundtrip (map normalizeModel inf_catalog))))),
        requests = 1 \<rparr>)"
    by (rule fetchModels_fresh[of _ _ 0 _ 1000])
      (simp_all add: offline_def CACHE_DURATION_def)
  show ?thesis
    unfolding first using second
    by (simp add: norm in_memory_def JSON_roundtrip_def map_numbers_def json_number_def)
qed

end
